theory Spec2Isabelle
  imports Complex_Main
begin

section \<open>Tabular data\<close>

text \<open>
  A pandas DataFrame is a list of column labels and a list of rows; a row gives every
  label a cell, and \<open>Null\<close> is pandas' NaN/None/NaT. Numeric cells are integers (the
  pipeline only moves, compares and erases them) and a date is its proleptic Gregorian
  ordinal, as \<open>datetime.date.toordinal\<close> numbers days.
\<close>

datatype cell = Null | Str string | Num int | Day int

type_synonym 'c row = "'c \<Rightarrow> cell"

record 'c frame =
  columns :: "'c list"
  rows :: "'c row list"

datatype error = StaleDataError string | KeyError | ValueError string | OverflowError

datatype level = Warning | Info

type_synonym log = "(level \<times> string) list"

definition isnull :: "cell \<Rightarrow> bool" where
  "isnull c = (c = Null)"

definition series :: "'c frame \<Rightarrow> 'c \<Rightarrow> cell list" where
  "series df c = map (\<lambda>r. r c) (rows df)"

section \<open>Dates of the source\<close>

definition date_2019_12_01 :: int where
  "date_2019_12_01 = 737394"

definition date_2020_05_14 :: int where
  "date_2020_05_14 = 737559"

definition date_2020_05_20 :: int where
  "date_2020_05_20 = 737565"

section \<open>Staleness check\<close>

text \<open>
  \<^verbatim>\<open>dates.max()\<close> skips nulls and is NaT on a series with no date at all.
\<close>

definition series_max :: "cell list \<Rightarrow> int option" where
  "series_max cs = (case [d. Day d \<leftarrow> cs] of [] \<Rightarrow> None | d # ds \<Rightarrow> Some (fold max ds d))"

text \<open>
  \<^verbatim>\<open>_fail_if_no_recent_dates(dates, stale_days_allowed=3)\<close>. The clock
  (\<^verbatim>\<open>datetime.date.today()\<close>) and Python's rendering of the date in the f-string
  are arguments \<open>today\<close> and \<open>str_dt\<close>. Every comparison with NaT is false, so a
  series without dates raises nothing.
\<close>

definition stale_days_allowed_default :: int where
  "stale_days_allowed_default = 3"

definition fail_if_no_recent_dates :: "(int \<Rightarrow> string) \<Rightarrow> int \<Rightarrow> cell list \<Rightarrow> int \<Rightarrow> error + unit" where
  "fail_if_no_recent_dates str_dt today dates stale_days_allowed =
     (case series_max dates of
        None \<Rightarrow> Inr ()
      | Some latest_dt \<Rightarrow>
          if latest_dt < today - stale_days_allowed
          then Inl (StaleDataError (''Latest dt is '' @ str_dt latest_dt))
          else Inr ())"

section \<open>FIPS derivation\<close>

text \<open>
  Python's \<^verbatim>\<open>str\<close> of an integer: decimal digits, a minus sign for a negative one.
\<close>

function str_digits :: "int \<Rightarrow> string" where
  "str_digits v = (if v < 10 then [''0123456789'' ! nat v]
                   else str_digits (v div 10) @ [''0123456789'' ! nat (v mod 10)])"
  by pat_completeness auto
termination
  by (relation "measure nat") auto

declare str_digits.simps [simp del]

definition str_int :: "int \<Rightarrow> string" where
  "str_int v = (if v < 0 then CHR ''-'' # str_digits (- v) else str_digits v)"

text \<open>
  Modelled from the spec: \<^verbatim>\<open>helpers.fips_from_int\<close> is not among the source files.
  The spec: raw location codes arrive as integers without leading zeros; derivation
  zero-pads to the fixed width, 2 digits if the unpadded value is below 100, else 5.
  Padding fills on the left and never truncates.
\<close>

definition zero_pad :: "nat \<Rightarrow> string \<Rightarrow> string" where
  "zero_pad w s = replicate (w - length s) CHR ''0'' @ s"

definition fips_from_int :: "int \<Rightarrow> string" where
  "fips_from_int v = zero_pad (if v < 100 then 2 else 5) (str_int v)"

section \<open>Canonical fields and the feeds' field tables\<close>

text \<open>
  \<^verbatim>\<open>CommonFields\<close> is declared outside the source files; these are its members
  that the two feeds of \<^verbatim>\<open>update_covid_county_data.py\<close> use.
\<close>

datatype CommonFields =
    FIPS | DATE | STATE | COUNTY | COUNTRY | AGGREGATE_LEVEL
  | NEGATIVE_TESTS | POSITIVE_TESTS | TOTAL_TESTS | CASES | RECOVERED | DEATHS
  | STAFFED_BEDS | HOSPITAL_BEDS_IN_USE_ANY | CURRENT_HOSPITALIZED
  | ICU_BEDS | CURRENT_ICU_TOTAL | CURRENT_ICU | CURRENT_VENTILATED

text \<open>
  A column of a fetched frame is labelled by the feed's own field name; the derived FIPS
  column is labelled by its canonical field before the renaming runs.
\<close>

datatype column = Raw string | Common CommonFields

text \<open>
  The enum \<^verbatim>\<open>Fields\<close>: each member's value and its \<^verbatim>\<open>common_field\<close>.
\<close>

definition Fields :: "(string \<times> CommonFields option) list" where
  "Fields =
    [(''location'', None),
     (''dt'', Some DATE),
     (''negative_tests_total'', Some NEGATIVE_TESTS),
     (''positive_tests_total'', Some POSITIVE_TESTS),
     (''tests_total'', Some TOTAL_TESTS),
     (''active_total'', None),
     (''cases_total'', Some CASES),
     (''cases_confirmed'', None),
     (''cases_suspected'', None),
     (''recovered_total'', Some RECOVERED),
     (''deaths_total'', Some DEATHS),
     (''deaths_confirmed'', None),
     (''deaths_suspected'', None),
     (''hospital_beds_capacity_count'', Some STAFFED_BEDS),
     (''hospital_beds_in_use_covid_confirmed'', None),
     (''hospital_beds_in_use_covid_new'', None),
     (''hospital_beds_in_use_covid_suspected'', None),
     (''hospital_beds_in_use_any'', Some HOSPITAL_BEDS_IN_USE_ANY),
     (''hospital_beds_in_use_covid_total'', Some CURRENT_HOSPITALIZED),
     (''num_hospitals_reporting'', None),
     (''num_of_hospitals'', None),
     (''icu_beds_capacity_count'', Some ICU_BEDS),
     (''icu_beds_in_use_covid_confirmed'', None),
     (''icu_beds_in_use_covid_suspected'', None),
     (''icu_beds_in_use_any'', Some CURRENT_ICU_TOTAL),
     (''icu_beds_in_use_covid_total'', Some CURRENT_ICU),
     (''ventilators_in_use_any'', None),
     (''ventilators_capacity_count'', None),
     (''ventilators_in_use_covid_total'', Some CURRENT_VENTILATED),
     (''ventilators_in_use_covid_confirmed'', None),
     (''ventilators_in_use_covid_suspected'', None)]"

definition UsaFactsFields :: "(string \<times> CommonFields option) list" where
  "UsaFactsFields =
    [(''fips'', None),
     (''dt'', Some DATE),
     (''cases_total'', Some CASES),
     (''deaths_total'', Some DEATHS)]"

text \<open>
  Modelled from the spec: \<^verbatim>\<open>COMMON_FIELDS_TIMESERIES_KEYS\<close> is declared outside the
  source files; the spec gives the timeseries key of this feed as (FIPS, DATE).
\<close>

definition COMMON_FIELDS_TIMESERIES_KEYS :: "CommonFields list" where
  "COMMON_FIELDS_TIMESERIES_KEYS = [FIPS, DATE]"

section \<open>Frame operations of pandas that the pipeline uses\<close>

text \<open>\<^verbatim>\<open>df[c] = v\<close>: every row gets the cell; a new label goes last.\<close>

definition assign :: "'c \<Rightarrow> cell \<Rightarrow> 'c frame \<Rightarrow> 'c frame" where
  "assign c v df =
     \<lparr>columns = (if c \<in> set (columns df) then columns df else columns df @ [c]),
      rows = map (\<lambda>r. r(c := v)) (rows df)\<rparr>"

text \<open>\<^verbatim>\<open>df.loc[mask]\<close> with a mask computed row by row.\<close>

definition loc :: "('c row \<Rightarrow> bool) \<Rightarrow> 'c frame \<Rightarrow> 'c frame" where
  "loc keep df = \<lparr>columns = columns df, rows = filter keep (rows df)\<rparr>"

text \<open>A row as seen through a frame's labels: a label the frame lacks reads as NaN.\<close>

definition restrict :: "'c list \<Rightarrow> 'c row \<Rightarrow> 'c row" where
  "restrict cs r = (\<lambda>c. if c \<in> set cs then r c else Null)"

text \<open>
  \<^verbatim>\<open>pd.concat([a, b])\<close>: the rows of \<open>a\<close> then those of \<open>b\<close>, over the union of
  the labels; a frame's rows are NaN at the labels only the other frame has.
\<close>

definition concat2 :: "'c frame \<Rightarrow> 'c frame \<Rightarrow> 'c frame" where
  "concat2 a b =
     \<lparr>columns = columns a @ [c \<leftarrow> columns b. c \<notin> set (columns a)],
      rows = map (restrict (columns a)) (rows a) @ map (restrict (columns b)) (rows b)\<rparr>"

text \<open>
  \<^verbatim>\<open>df.drop(labels, axis="columns")\<close> raises KeyError when a label is not a column.
\<close>

definition drop_columns :: "'c list \<Rightarrow> 'c frame \<Rightarrow> error + 'c frame" where
  "drop_columns labels df =
     (if list_all (\<lambda>c. c \<in> set (columns df)) labels
      then Inr \<lparr>columns = [c \<leftarrow> columns df. c \<notin> set labels],
                rows = map (\<lambda>r c. if c \<in> set labels then Null else r c) (rows df)\<rparr>
      else Inl KeyError)"

text \<open>
  \<^verbatim>\<open>shift(-1)\<close> on a frame indexed by \<open>idx\<close>: the index stays, every other cell
  comes from the next row in frame order, and the last row is left all NaN.
\<close>

fun shift_minus_1 :: "'c \<Rightarrow> 'c row list \<Rightarrow> 'c row list" where
  "shift_minus_1 idx [] = []"
| "shift_minus_1 idx [r] = [(\<lambda>c. Null)(idx := r idx)]"
| "shift_minus_1 idx (r # r' # rs) = (r'(idx := r idx)) # shift_minus_1 idx (r' # rs)"

text \<open>\<^verbatim>\<open>dropna(how="all")\<close> on a frame indexed by \<open>idx\<close>.\<close>

definition dropna_all :: "'c \<Rightarrow> 'c list \<Rightarrow> 'c row list \<Rightarrow> 'c row list" where
  "dropna_all idx cs rs = [r \<leftarrow> rs. list_ex (\<lambda>c. c \<noteq> idx \<and> r c \<noteq> Null) cs]"

text \<open>
  \<^verbatim>\<open>set_index(keys, verify_integrity=True)\<close>: KeyError when a key is not a column,
  ValueError when two rows carry the same key tuple; otherwise the frame, its rows
  untouched (the key cells are kept in the row).
\<close>

definition key_of :: "'c list \<Rightarrow> 'c row \<Rightarrow> cell list" where
  "key_of keys r = map r keys"

definition set_index_verify :: "'c list \<Rightarrow> 'c frame \<Rightarrow> error + 'c frame" where
  "set_index_verify keys df =
     (if \<not> list_all (\<lambda>k. k \<in> set (columns df)) keys then Inl KeyError
      else if distinct (map (key_of keys) (rows df)) then Inr df
      else Inl (ValueError ''Index has duplicate keys''))"

section \<open>Helpers outside the source files\<close>

text \<open>
  The series form of \<open>fips_from_int\<close>. The location column is int64, so every cell of
  it is a number; the model gives any other cell NaN.
\<close>

definition fips_cell :: "cell \<Rightarrow> cell" where
  "fips_cell c = (case c of Num v \<Rightarrow> Str (fips_from_int v) | _ \<Rightarrow> Null)"

definition assign_fips :: "string \<Rightarrow> column frame \<Rightarrow> column frame" where
  "assign_fips src df =
     \<lparr>columns = (if Common FIPS \<in> set (columns df) then columns df else columns df @ [Common FIPS]),
      rows = map (\<lambda>r. r(Common FIPS := fips_cell (r (Raw src)))) (rows df)\<rparr>"

text \<open>
  Modelled from the spec: \<^verbatim>\<open>helpers.rename_fields\<close> is not among the source files.
  The spec: the result holds only the columns with a canonical mapping, renamed to the
  canonical name, with row order and row count preserved; a column without a canonical
  counterpart is dropped silently; a field marked already transformed bypasses renaming.
\<close>

definition canonical :: "(string \<times> CommonFields option) list \<Rightarrow> CommonFields list \<Rightarrow> column \<Rightarrow> CommonFields option" where
  "canonical flds already c =
     (case c of
        Common f \<Rightarrow> if f \<in> set already then Some f else None
      | Raw s \<Rightarrow> (case map_of flds s of Some (Some f) \<Rightarrow> Some f | _ \<Rightarrow> None))"

definition rename_fields :: "column frame \<Rightarrow> (string \<times> CommonFields option) list \<Rightarrow> CommonFields list \<Rightarrow> CommonFields frame" where
  "rename_fields df flds already =
     \<lparr>columns = List.map_filter (canonical flds already) (columns df),
      rows = map (\<lambda>r f. case find (\<lambda>c. canonical flds already c = Some f) (columns df) of
                           Some c \<Rightarrow> r c | None \<Rightarrow> Null) (rows df)\<rparr>"

text \<open>
  Modelled from the spec: \<^verbatim>\<open>common_df.sort_common_field_columns\<close> is not among the
  source files. The spec: sort columns into canonical order. Only the labels are
  permuted; no cell changes.
\<close>

definition common_fields_order :: "CommonFields list" where
  "common_fields_order =
     [FIPS, DATE, STATE, COUNTY, COUNTRY, AGGREGATE_LEVEL,
      NEGATIVE_TESTS, POSITIVE_TESTS, TOTAL_TESTS, CASES, RECOVERED, DEATHS,
      STAFFED_BEDS, HOSPITAL_BEDS_IN_USE_ANY, CURRENT_HOSPITALIZED,
      ICU_BEDS, CURRENT_ICU_TOTAL, CURRENT_ICU, CURRENT_VENTILATED]"

definition sort_common_field_columns :: "CommonFields frame \<Rightarrow> CommonFields frame" where
  "sort_common_field_columns df =
     \<lparr>columns = [c \<leftarrow> common_fields_order. c \<in> set (columns df)], rows = rows df\<rparr>"

section \<open>CovidCountyDataTransformer\<close>

text \<open>
  The two reference tables are arguments: \<open>fips_data\<close> gives a county FIPS its state
  and county name, \<open>state_df\<close> gives a state FIPS its state; each is keyed by FIPS and
  a key it holds has a name. A run returns its result, or the error that ended it,
  together with what it logged through \<^verbatim>\<open>self.log\<close>.
\<close>

definition state_mask :: "CommonFields row \<Rightarrow> bool" where
  "state_mask r = (case r FIPS of Str s \<Rightarrow> length s = 2 | _ \<Rightarrow> False)"

definition merge_county :: "(string \<rightharpoonup> string \<times> string) \<Rightarrow> CommonFields row \<Rightarrow> CommonFields row" where
  "merge_county fips_data r =
     (case r FIPS of
        Str f \<Rightarrow> (case fips_data f of
                    Some (st, cty) \<Rightarrow> r(STATE := Str st, COUNTY := Str cty)
                  | None \<Rightarrow> r(STATE := Null, COUNTY := Null))
      | _ \<Rightarrow> r(STATE := Null, COUNTY := Null))"

definition merge_state :: "(string \<rightharpoonup> string) \<Rightarrow> CommonFields row \<Rightarrow> CommonFields row" where
  "merge_state state_df r =
     (case r FIPS of
        Str f \<Rightarrow> (case state_df f of Some st \<Rightarrow> r(STATE := Str st) | None \<Rightarrow> r(STATE := Null))
      | _ \<Rightarrow> r(STATE := Null))"

definition add_columns :: "'c list \<Rightarrow> 'c list \<Rightarrow> 'c list" where
  "add_columns cs new = cs @ [c \<leftarrow> new. c \<notin> set cs]"

text \<open>
  \<^verbatim>\<open>_counties_states_with_geoattributes\<close>. The two merges are left joins on FIPS
  against the reference tables. Neither field table maps a raw column to STATE or
  COUNTY, so the frames that the transforms pass here have neither column; on a frame
  that already had one, the merge called with \<^verbatim>\<open>suffixes=(False, False)\<close> would raise
  in pandas, a case outside this embedding.
\<close>

definition counties_states_with_geoattributes ::
  "(string \<rightharpoonup> string \<times> string) \<Rightarrow> (string \<rightharpoonup> string) \<Rightarrow> CommonFields frame
     \<Rightarrow> (CommonFields frame \<times> CommonFields frame) \<times> log" where
  "counties_states_with_geoattributes fips_data state_df df0 =
     (let df = assign COUNTRY (Str ''USA'') df0;
          states = loc state_mask df;
          counties = loc (\<lambda>r. \<not> state_mask r) df;
          counties = \<lparr>columns = add_columns (columns counties) [STATE, COUNTY],
                      rows = map (merge_county fips_data) (rows counties)\<rparr>;
          no_match_counties_mask = (\<lambda>r. isnull (r STATE));
          lg = (if 0 < length (filter no_match_counties_mask (rows counties))
                then [(Warning, ''Some counties did not match by fips'')] else []);
          counties = loc (\<lambda>r. \<not> no_match_counties_mask r) counties;
          counties = assign AGGREGATE_LEVEL (Str ''county'') counties;
          states = \<lparr>columns = add_columns (columns states) [STATE],
                    rows = map (merge_state state_df) (rows states)\<rparr>;
          states = assign AGGREGATE_LEVEL (Str ''state'') states
      in ((counties, states), lg))"

text \<open>\<^verbatim>\<open>_drop_bad_rows\<close>\<close>

definition bad_rows :: "CommonFields row \<Rightarrow> bool" where
  "bad_rows r = (isnull (r FIPS) \<or> isnull (r DATE) \<or> isnull (r STATE))"

definition ancient_rows :: "CommonFields row \<Rightarrow> bool" where
  "ancient_rows r = (case r DATE of Day d \<Rightarrow> d < date_2019_12_01 | _ \<Rightarrow> False)"

definition drop_bad_rows :: "CommonFields frame \<Rightarrow> CommonFields frame \<times> log" where
  "drop_bad_rows df0 =
     (let (df, log1) =
            (if list_ex bad_rows (rows df0)
             then (loc (\<lambda>r. \<not> bad_rows r) df0,
                   [(Warning, ''Dropping rows with null in important columns'')])
             else (df0, []));
          (df, log2) =
            (if list_ex ancient_rows (rows df)
             then (loc (\<lambda>r. \<not> ancient_rows r) df, [(Info, ''Dropping rows of ancient data'')])
             else (df, []))
      in (df, log1 @ log2))"

text \<open>
  Lines 143 to 149 of \<^verbatim>\<open>transform\<close>: the county frame is indexed by DATE, the rows
  whose FIPS starts with "48" are shifted and put back after the others. Every county
  row that reaches this block has a string FIPS (a null one has no match in the county
  table).
\<close>

definition is_tx_counties :: "CommonFields row \<Rightarrow> bool" where
  "is_tx_counties r = (case r FIPS of Str s \<Rightarrow> take 2 s = ''48'' | _ \<Rightarrow> False)"

definition shift_tx_counties :: "CommonFields frame \<Rightarrow> CommonFields frame" where
  "shift_tx_counties counties =
     (let tx_counties = filter is_tx_counties (rows counties);
          tx_counties = shift_minus_1 DATE tx_counties;
          tx_counties = dropna_all DATE (columns counties) tx_counties
      in \<lparr>columns = DATE # removeAll DATE (columns counties),
          rows = filter (\<lambda>r. \<not> is_tx_counties r) (rows counties) @ tx_counties\<rparr>)"

definition state_columns_to_drop :: "CommonFields list" where
  "state_columns_to_drop = [ICU_BEDS, HOSPITAL_BEDS_IN_USE_ANY, STAFFED_BEDS, CURRENT_ICU_TOTAL]"

text \<open>Lines 171 to 174 of \<^verbatim>\<open>transform\<close>: the misleading FL current_icu values.\<close>

definition is_incorrect_fl_icu_dates :: "CommonFields row \<Rightarrow> bool" where
  "is_incorrect_fl_icu_dates r =
     (case r DATE of Day d \<Rightarrow> date_2020_05_14 \<le> d \<and> d \<le> date_2020_05_20 | _ \<Rightarrow> False)"

definition is_fl_state :: "CommonFields row \<Rightarrow> bool" where
  "is_fl_state r = (r FIPS = Str ''12'')"

definition null_fl_icu_row :: "CommonFields row \<Rightarrow> CommonFields row" where
  "null_fl_icu_row r =
     (if is_fl_state r \<and> is_incorrect_fl_icu_dates r then r(CURRENT_ICU := Null) else r)"

definition null_fl_icu :: "CommonFields frame \<Rightarrow> CommonFields frame" where
  "null_fl_icu df =
     \<lparr>columns = add_columns (columns df) [CURRENT_ICU], rows = map null_fl_icu_row (rows df)\<rparr>"

text \<open>
  \<^verbatim>\<open>transform\<close>, lines 123 to 149: from the fetched frame to the county and state
  partitions, the Texas shift done. Reading a column the fetched frame lacks raises
  KeyError.
\<close>

definition transform_partitions ::
  "(int \<Rightarrow> string) \<Rightarrow> int \<Rightarrow> (string \<rightharpoonup> string \<times> string) \<Rightarrow> (string \<rightharpoonup> string) \<Rightarrow> column frame
     \<Rightarrow> error + ((CommonFields frame \<times> CommonFields frame) \<times> log)" where
  "transform_partitions str_dt today fips_data state_df df0 =
     (if Raw ''dt'' \<notin> set (columns df0) then Inl KeyError
      else case fail_if_no_recent_dates str_dt today (series df0 (Raw ''dt''))
                  stale_days_allowed_default of
        Inl e \<Rightarrow> Inl e
      | Inr _ \<Rightarrow>
          if Raw ''location'' \<notin> set (columns df0) then Inl KeyError
          else
            let df = assign_fips ''location'' df0;
                df = rename_fields df Fields [FIPS];
                ((counties, states), lg) = counties_states_with_geoattributes fips_data state_df df
            in Inr ((shift_tx_counties counties, states), lg))"

text \<open>
  \<^verbatim>\<open>transform\<close>, lines 154 to 174: backfill removal on the counties, the state bed
  columns dropped, the partitions concatenated, the bad rows dropped and the FL values
  nulled. \<^verbatim>\<open>update_nytimes_data.remove_county_backfilled_cases\<close> and its rule list are
  outside the source files: the function, applied to its list, is the argument
  \<open>remove_county_backfilled_cases\<close>.
\<close>

definition transform_frame ::
  "(int \<Rightarrow> string) \<Rightarrow> int \<Rightarrow> (string \<rightharpoonup> string \<times> string) \<Rightarrow> (string \<rightharpoonup> string)
     \<Rightarrow> (CommonFields frame \<Rightarrow> CommonFields frame) \<Rightarrow> column frame
     \<Rightarrow> (error + CommonFields frame) \<times> log" where
  "transform_frame str_dt today fips_data state_df remove_county_backfilled_cases df0 =
     (case transform_partitions str_dt today fips_data state_df df0 of
        Inl e \<Rightarrow> (Inl e, [])
      | Inr ((counties, states), log1) \<Rightarrow>
          let counties = remove_county_backfilled_cases counties
          in (case drop_columns state_columns_to_drop states of
                Inl e \<Rightarrow> (Inl e, log1)
              | Inr states \<Rightarrow>
                  let df = concat2 states counties;
                      df = sort_common_field_columns df;
                      (df, log2) = drop_bad_rows df;
                      df = null_fl_icu df
                  in (Inr df, log1 @ log2)))"

text \<open>\<^verbatim>\<open>transform\<close>: the frame above, indexed by the timeseries key (line 176).\<close>

definition transform ::
  "(int \<Rightarrow> string) \<Rightarrow> int \<Rightarrow> (string \<rightharpoonup> string \<times> string) \<Rightarrow> (string \<rightharpoonup> string)
     \<Rightarrow> (CommonFields frame \<Rightarrow> CommonFields frame) \<Rightarrow> column frame
     \<Rightarrow> (error + CommonFields frame) \<times> log" where
  "transform str_dt today fips_data state_df remove_county_backfilled_cases df0 =
     (case transform_frame str_dt today fips_data state_df remove_county_backfilled_cases df0 of
        (Inl e, lg) \<Rightarrow> (Inl e, lg)
      | (Inr df, lg) \<Rightarrow> (set_index_verify COMMON_FIELDS_TIMESERIES_KEYS df, lg))"

text \<open>\<^verbatim>\<open>transform_usafacts\<close>, lines 181 to 199, and then line 201.\<close>

definition usafacts_frame ::
  "(int \<Rightarrow> string) \<Rightarrow> int \<Rightarrow> (string \<rightharpoonup> string \<times> string) \<Rightarrow> (string \<rightharpoonup> string) \<Rightarrow> column frame
     \<Rightarrow> (error + CommonFields frame) \<times> log" where
  "usafacts_frame str_dt today fips_data state_df df0 =
     (if Raw ''dt'' \<notin> set (columns df0) then (Inl KeyError, [])
      else case fail_if_no_recent_dates str_dt today (series df0 (Raw ''dt'')) 7 of
        Inl e \<Rightarrow> (Inl e, [])
      | Inr _ \<Rightarrow>
          if Raw ''fips'' \<notin> set (columns df0) then (Inl KeyError, [])
          else
            let df = assign_fips ''fips'' df0;
                df = rename_fields df UsaFactsFields [FIPS];
                ((counties, states), log1) = counties_states_with_geoattributes fips_data state_df df;
                df = concat2 states counties;
                df = sort_common_field_columns df;
                (df, log2) = drop_bad_rows df
            in (Inr df, log1 @ log2))"

definition transform_usafacts ::
  "(int \<Rightarrow> string) \<Rightarrow> int \<Rightarrow> (string \<rightharpoonup> string \<times> string) \<Rightarrow> (string \<rightharpoonup> string) \<Rightarrow> column frame
     \<Rightarrow> (error + CommonFields frame) \<times> log" where
  "transform_usafacts str_dt today fips_data state_df df0 =
     (case usafacts_frame str_dt today fips_data state_df df0 of
        (Inl e, lg) \<Rightarrow> (Inl e, lg)
      | (Inr df, lg) \<Rightarrow> (set_index_verify COMMON_FIELDS_TIMESERIES_KEYS df, lg))"

section \<open>ForecastHubUpdater\<close>

text \<open>
  A row of the raw forecast file as \<^verbatim>\<open>load_source_data\<close> reads it: the columns
  \<^verbatim>\<open>model_abbr\<close>, \<^verbatim>\<open>unit\<close>, \<^verbatim>\<open>forecast_date\<close>, \<^verbatim>\<open>target\<close>,
  \<^verbatim>\<open>quantile\<close> and \<^verbatim>\<open>value\<close>. The quantile and the value are floats the
  transform only compares, orders and moves; their types are parameters, and a null one
  is \<open>None\<close>. The target is a string. The forecast date is a Timestamp at midnight
  (\<^verbatim>\<open>update_source_data\<close> writes the one date of the forecast in every row), here
  the ordinal of its day.
\<close>

record ('q, 'v) hub_row =
  model_abbr :: string
  hub_unit :: string
  forecast_date :: int
  target :: string
  quantile :: "'q option"
  hub_value :: "'v option"

text \<open>The row with the three columns \<^verbatim>\<open>transform\<close> derives from the target.\<close>

record ('q, 'v) hub_row_targets = "('q, 'v) hub_row" +
  target_date :: int
  target_type :: string
  target_summation :: "string option"

text \<open>
  \<^verbatim>\<open>str.split(" ")\<close>: cut at every single space; never an empty list.
\<close>

fun split_space :: "string \<Rightarrow> string list" where
  "split_space [] = [[]]"
| "split_space (c # cs) =
     (if c = CHR '' '' then [] # split_space cs
      else (case split_space cs of w # ws \<Rightarrow> (c # w) # ws | [] \<Rightarrow> [[c]]))"

text \<open>
  What the transform takes from the releases of Python and pandas it runs on:
  \<open>int_max_str_digits\<close> is \<^verbatim>\<open>sys.get_int_max_str_digits()\<close>, the greatest number
  of digits \<^verbatim>\<open>int\<close> converts (4300 by default since Python 3.11), 0 where there is
  no limit, as in the earlier releases; \<open>out_of_bounds\<close> is what adding a Timedelta to a
  Timestamp gives when the sum is no Timestamp (an error, or in some releases a date
  wrapped around by the 64-bit addition), given the day and the days to add.
\<close>

record runtime =
  int_max_str_digits :: nat
  out_of_bounds :: "int \<Rightarrow> int \<Rightarrow> error + int"

text \<open>
  Python's \<^verbatim>\<open>int\<close> of a string, on ASCII text: whitespace around the literal is
  stripped, a sign may lead, and the digits may be grouped by single underscores. A
  literal of more than 640 digits that exceeds the limit of the runtime is refused, with
  ValueError like a text that is no literal.
\<close>

definition is_digit :: "char \<Rightarrow> bool" where
  "is_digit c = (c \<in> set ''0123456789'')"

definition digit_val :: "char \<Rightarrow> int" where
  "digit_val c = of_char c - 48"

definition is_space :: "char \<Rightarrow> bool" where
  "is_space c = (c \<in> set [CHR 0x09, CHR 0x0A, CHR 0x0B, CHR 0x0C, CHR 0x0D,
                            CHR 0x1C, CHR 0x1D, CHR 0x1E, CHR 0x1F, CHR 0x20])"

definition strip :: "string \<Rightarrow> string" where
  "strip s = rev (dropWhile is_space (rev (dropWhile is_space s)))"

definition int_of_digits :: "string \<Rightarrow> int" where
  "int_of_digits ds = foldl (\<lambda>a c. 10 * a + digit_val c) 0 ds"

definition valid_digits :: "string \<Rightarrow> bool" where
  "valid_digits s =
     (s \<noteq> [] \<and> is_digit (hd s) \<and> is_digit (last s)
      \<and> list_all (\<lambda>c. is_digit c \<or> c = CHR ''_'') s
      \<and> \<not> list_ex (\<lambda>(a, b). a = CHR ''_'' \<and> b = CHR ''_'') (zip s (tl s)))"

definition too_many_digits :: "runtime \<Rightarrow> string \<Rightarrow> bool" where
  "too_many_digits rt ds =
     (640 < length ds \<and> 0 < int_max_str_digits rt \<and> int_max_str_digits rt < length ds)"

definition int_of_str :: "runtime \<Rightarrow> string \<Rightarrow> int option" where
  "int_of_str rt s =
     (let t = strip s;
          (sgn, u) = (case t of
                        c # r \<Rightarrow> if c = CHR ''-'' then (- 1, r)
                                 else if c = CHR ''+'' then (1, r) else (1, t)
                      | [] \<Rightarrow> (1, t));
          ds = [c \<leftarrow> u. c \<noteq> CHR ''_'']
      in if valid_digits u \<and> \<not> too_many_digits rt ds then Some (sgn * int_of_digits ds) else None)"

text \<open>
  pandas holds a Timestamp and a Timedelta as a signed 64-bit count of nanoseconds. In
  whole days: a Timestamp at midnight lies between 1677-09-22 and 2262-04-11, and a
  Timedelta has at most 106751 days in either direction.
\<close>

definition timestamp_min_day :: int where
  "timestamp_min_day = 612412"

definition timestamp_max_day :: int where
  "timestamp_max_day = 825914"

definition timedelta_max_days :: int where
  "timedelta_max_days = 106751"

text \<open>
  \<^verbatim>\<open>pd.Timedelta(weeks=n)\<close>, in days: OverflowError when the weeks do not fit, that
  is, beyond 15250 weeks in either direction.
\<close>

definition timedelta_weeks :: "int \<Rightarrow> error + int" where
  "timedelta_weeks n =
     (if - timedelta_max_days \<le> 7 * n \<and> 7 * n \<le> timedelta_max_days then Inr (7 * n)
      else Inl OverflowError)"

text \<open>
  A Timestamp plus a Timedelta, as line 117 adds them for one row: the sum where it is a
  day that a Timestamp holds, and what the runtime gives elsewhere.
\<close>

definition timestamp_add :: "runtime \<Rightarrow> int \<Rightarrow> int \<Rightarrow> error + int" where
  "timestamp_add rt d k =
     (if timestamp_min_day \<le> d + k \<and> d + k \<le> timestamp_max_day then Inr (d + k)
      else out_of_bounds rt d k)"

text \<open>
  Lines 116 to 124 of \<^verbatim>\<open>transform\<close>, for one row: \<^verbatim>\<open>int\<close> of the first token
  raises ValueError when it is no integer literal, the Timedelta of that many weeks and
  its addition to the forecast date are as above; \<^verbatim>\<open>.str[-1]\<close> is the last token
  and \<^verbatim>\<open>.str[-2]\<close> the one before it, null when there is none.
\<close>

definition add_target_columns_row :: "runtime \<Rightarrow> ('q, 'v) hub_row \<Rightarrow> error + ('q, 'v) hub_row_targets" where
  "add_target_columns_row rt x =
     (let toks = split_space (target x) in
      case int_of_str rt (hd toks) of
        None \<Rightarrow> Inl (ValueError ''invalid literal for int() with base 10'')
      | Some weeks \<Rightarrow>
          (case timedelta_weeks weeks of
             Inl e \<Rightarrow> Inl e
           | Inr k \<Rightarrow>
               (case timestamp_add rt (forecast_date x) k of
                  Inl e \<Rightarrow> Inl e
                | Inr d \<Rightarrow>
                    Inr (hub_row.extend x
                           \<lparr>target_date = d,
                            target_type = last toks,
                            target_summation =
                              (if 2 \<le> length toks then Some (toks ! (length toks - 2))
                               else None)\<rparr>))))"

text \<open>The same over the rows in their order: the first row that raises ends the run.\<close>

fun add_target_columns_rows ::
  "runtime \<Rightarrow> ('q, 'v) hub_row list \<Rightarrow> error + ('q, 'v) hub_row_targets list" where
  "add_target_columns_rows rt [] = Inr []"
| "add_target_columns_rows rt (x # xs) =
     (case add_target_columns_row rt x of
        Inl e \<Rightarrow> Inl e
      | Inr y \<Rightarrow> (case add_target_columns_rows rt xs of Inl e \<Rightarrow> Inl e | Inr ys \<Rightarrow> Inr (y # ys)))"

text \<open>
  Over the frame. On a frame without rows \<^verbatim>\<open>df.apply\<close> has no row to call the
  function on and returns a frame, not a column, and the assignment of line 116 raises
  ValueError (the text of the message depends on the release of pandas).
\<close>

definition add_target_columns ::
  "runtime \<Rightarrow> ('q, 'v) hub_row list \<Rightarrow> error + ('q, 'v) hub_row_targets list" where
  "add_target_columns rt df =
     (if df = []
      then Inl (ValueError ''Cannot set a DataFrame with multiple columns to the single column target_date'')
      else add_target_columns_rows rt df)"

text \<open>The boolean masks of lines 126 to 136, combined.\<close>

definition masks :: "('q, 'v) hub_row_targets \<Rightarrow> bool" where
  "masks r =
     (hub_unit r \<noteq> ''US''
      \<and> quantile r \<noteq> None
      \<and> target_summation r = Some ''inc''
      \<and> target_date r \<le> forecast_date r + 28)"

text \<open>
  Lines 126 to 152, \<^verbatim>\<open>df[mask]\<close>. Line 132 adds four weeks to the whole column of
  forecast dates, and the addition over a column raises OverflowError when one of the
  sums is past the last Timestamp.
\<close>

definition apply_masks :: "('q, 'v) hub_row_targets list \<Rightarrow> error + ('q, 'v) hub_row_targets list" where
  "apply_masks df =
     (if list_ex (\<lambda>r. timestamp_max_day < forecast_date r + 28) df then Inl OverflowError
      else Inr (filter masks df))"

text \<open>
  The members of the forecast \<^verbatim>\<open>Fields\<close> that name a target type, each with the
  name of its canonical field (the spec writes the columns \<^verbatim>\<open>weekly_new_cases_0.5\<close>).
  \<^verbatim>\<open>rename_fields\<close> keeps the value columns of these types and drops every other.
\<close>

definition weekly_fields :: "(string \<times> string) list" where
  "weekly_fields = [(''case'', ''weekly_new_cases''), (''death'', ''weekly_new_deaths'')]"

text \<open>
  The wide table: the labels of the value columns, and one row per key
  (FIPS, DATE, MODEL_ABBR, FORECAST_DATE) with its cells in the order of the labels.
\<close>

record 'v wide_frame =
  wide_columns :: "string list"
  wide_rows :: "((string \<times> int \<times> string \<times> int) \<times> 'v option list) list"

definition pivot_index :: "('q, 'v) hub_row_targets \<Rightarrow> string \<times> string \<times> int \<times> int \<times> 'q option" where
  "pivot_index r = (model_abbr r, hub_unit r, forecast_date r, target_date r, quantile r)"

definition wide_index :: "('q, 'v) hub_row_targets \<Rightarrow> string \<times> int \<times> string \<times> int" where
  "wide_index r = (hub_unit r, target_date r, model_abbr r, forecast_date r)"

definition cell_value ::
  "('q, 'v) hub_row_targets list \<Rightarrow> string \<times> int \<times> string \<times> int \<Rightarrow> string \<Rightarrow> 'q \<Rightarrow> 'v option" where
  "cell_value df k ty q =
     (case find (\<lambda>r. wide_index r = k \<and> quantile r = Some q \<and> target_type r = ty) df of
        Some r \<Rightarrow> hub_value r
      | None \<Rightarrow> None)"

text \<open>
  The names of the index that line 153 sets; \<^verbatim>\<open>reset_index\<close> (line 163) inserts them
  as columns, the last one first.
\<close>

definition index_names :: "string list" where
  "index_names = [''model_abbr'', ''unit'', ''forecast_date'', ''target_date'', ''quantile'']"

text \<open>
  Lines 152 to 188: the first pivot raises ValueError when two kept rows share the index
  (model, unit, forecast date, target date, quantile) and the target type; its columns
  are the target types of the kept rows, and \<^verbatim>\<open>reset_index\<close> raises ValueError when
  one of them has the name of an index level. The second pivot gives one value column
  per kept field and quantile, the quantiles in ascending order, named by the field, an
  underscore and Python's \<^verbatim>\<open>str\<close> of the quantile (the argument \<open>str_q\<close>). The
  order of the rows is not modelled.
\<close>

definition pivot_wide ::
  "('q::linorder \<Rightarrow> string) \<Rightarrow> ('q, 'v) hub_row_targets list \<Rightarrow> error + 'v wide_frame" where
  "pivot_wide str_q df =
     (if \<not> distinct (map (\<lambda>r. (pivot_index r, target_type r)) df)
      then Inl (ValueError ''Index contains duplicate entries, cannot reshape'')
      else case find (\<lambda>n. n \<in> set (map target_type df)) (rev index_names) of
        Some n \<Rightarrow> Inl (ValueError (''cannot insert '' @ n @ '', already exists''))
      | None \<Rightarrow>
        let flds = [f \<leftarrow> weekly_fields. fst f \<in> set (map target_type df)];
            qs = sort (remdups (List.map_filter quantile df));
            cols = concat (map (\<lambda>f. map (\<lambda>q. (f, q)) qs) flds);
            keys = remdups (map wide_index df)
        in Inr \<lparr>wide_columns = map (\<lambda>(f, q). snd f @ ''_'' @ str_q q) cols,
                wide_rows = map (\<lambda>k. (k, map (\<lambda>(f, q). cell_value df k (fst f) q) cols)) keys\<rparr>)"

text \<open>\<^verbatim>\<open>ForecastHubUpdater.transform\<close>\<close>

definition transform_forecast ::
  "runtime \<Rightarrow> ('q::linorder \<Rightarrow> string) \<Rightarrow> ('q, 'v) hub_row list \<Rightarrow> error + 'v wide_frame" where
  "transform_forecast rt str_q df =
     (case add_target_columns rt df of
        Inl e \<Rightarrow> Inl e
      | Inr df \<Rightarrow>
          (case apply_masks df of
             Inl e \<Rightarrow> Inl e
           | Inr df \<Rightarrow> pivot_wide str_q df))"

text \<open>
  The rows the spec's filtering rules drop: the national region, a point forecast (null
  quantile), a target that is not an incidence, a target date more than 4 weeks after the
  forecast date.
\<close>

definition excluded :: "('q, 'v) hub_row_targets \<Rightarrow> bool" where
  "excluded r =
     (hub_unit r = ''US''
      \<or> quantile r = None
      \<or> target_summation r \<noteq> Some ''inc''
      \<or> forecast_date r + 4 * 7 < target_date r)"

definition excluded_raw :: "runtime \<Rightarrow> ('q, 'v) hub_row \<Rightarrow> bool" where
  "excluded_raw rt x =
     (case add_target_columns_row rt x of Inr r \<Rightarrow> excluded r | Inl e \<Rightarrow> False)"

text \<open>
  An example feed; \<open>str_q_example\<close> is Python's \<^verbatim>\<open>str\<close> on its three quantiles,
  and \<open>rt_example\<close> a runtime with the default limit on digits whose pandas raises
  OutOfBoundsDatetime, a ValueError, where the sum is no Timestamp.
\<close>

definition rt_example :: runtime where
  "rt_example =
     \<lparr>int_max_str_digits = 4300,
      out_of_bounds = (\<lambda>d k. Inl (ValueError ''Out of bounds nanosecond timestamp''))\<rparr>"

definition str_q_example :: "rat \<Rightarrow> string" where
  "str_q_example q =
     (if q = 1 / 10 then ''0.1'' else if q = 1 / 2 then ''0.5''
      else if q = 9 / 10 then ''0.9'' else ''nan'')"

definition hub_example :: "(rat, int) hub_row list" where
  "hub_example =
     [\<lparr>model_abbr = ''COVIDhub-ensemble'', hub_unit = ''06'', forecast_date = 737615,
       target = ''1 wk inc case'', quantile = Some (1 / 2), hub_value = Some 20\<rparr>,
      \<lparr>model_abbr = ''COVIDhub-ensemble'', hub_unit = ''06'', forecast_date = 737615,
       target = ''1 wk inc case'', quantile = Some (9 / 10), hub_value = Some 30\<rparr>,
      \<lparr>model_abbr = ''COVIDhub-ensemble'', hub_unit = ''06'', forecast_date = 737615,
       target = ''1 wk inc case'', quantile = Some (1 / 10), hub_value = Some 10\<rparr>,
      \<lparr>model_abbr = ''COVIDhub-ensemble'', hub_unit = ''06'', forecast_date = 737615,
       target = ''1 wk inc case'', quantile = None, hub_value = Some 21\<rparr>,
      \<lparr>model_abbr = ''COVIDhub-ensemble'', hub_unit = ''US'', forecast_date = 737615,
       target = ''1 wk inc case'', quantile = Some (1 / 2), hub_value = Some 900\<rparr>,
      \<lparr>model_abbr = ''COVIDhub-ensemble'', hub_unit = ''06'', forecast_date = 737615,
       target = ''1 wk cum death'', quantile = Some (1 / 2), hub_value = Some 500\<rparr>,
      \<lparr>model_abbr = ''COVIDhub-ensemble'', hub_unit = ''06'', forecast_date = 737615,
       target = ''5 wk inc case'', quantile = Some (1 / 2), hub_value = Some 70\<rparr>]"

section \<open>Notions the properties are stated with\<close>

text \<open>
  What is assumed of the backfill removal where a property needs it: it returns the frame
  with the same labels and the same rows in the same order, and changes no cell outside
  one column.
\<close>

definition changes_only :: "CommonFields \<Rightarrow> (CommonFields frame \<Rightarrow> CommonFields frame) \<Rightarrow> bool" where
  "changes_only c f =
     (\<forall>df. columns (f df) = columns df
         \<and> list_all2 (\<lambda>r' r. \<forall>c'. c' \<noteq> c \<longrightarrow> r' c' = r c') (rows (f df)) (rows df))"

text \<open>
  The FIPS cells that select the state partition, and the FIPS cells whose join finds a
  match: a 2-character code in the state table, any other code in the county table.
\<close>

definition is_state_fips :: "cell \<Rightarrow> bool" where
  "is_state_fips c = (case c of Str f \<Rightarrow> length f = 2 | _ \<Rightarrow> False)"

definition join_match :: "(string \<rightharpoonup> string \<times> string) \<Rightarrow> (string \<rightharpoonup> string) \<Rightarrow> cell \<Rightarrow> bool" where
  "join_match fips_data state_df c =
     (case c of Str f \<Rightarrow> if length f = 2 then state_df f \<noteq> None else fips_data f \<noteq> None
      | _ \<Rightarrow> False)"

text \<open>
  A week count that \<^verbatim>\<open>pd.Timedelta\<close> holds and whose target date, from the forecast
  date \<open>d\<close>, is a day that a Timestamp holds.
\<close>

definition weeks_fit :: "int \<Rightarrow> int \<Rightarrow> bool" where
  "weeks_fit d w =
     (- 15250 \<le> w \<and> w \<le> 15250 \<and> timestamp_min_day \<le> d + 7 * w \<and> d + 7 * w \<le> timestamp_max_day)"

section \<open>Example frames and reference tables\<close>

definition row_of :: "('c \<times> cell) list \<Rightarrow> 'c row" where
  "row_of kvs = (\<lambda>c. case map_of kvs c of Some v \<Rightarrow> v | None \<Rightarrow> Null)"

definition ctab :: "string \<rightharpoonup> string \<times> string" where
  "ctab = [''01001'' \<mapsto> (''AL'', ''Autauga County''), ''48001'' \<mapsto> (''TX'', ''Anderson County'')]"

definition stab :: "string \<rightharpoonup> string" where
  "stab = [''12'' \<mapsto> ''FL'', ''48'' \<mapsto> ''TX'']"

definition raw_cols :: "column list" where
  "raw_cols = [Raw ''location'', Raw ''dt'', Raw ''cases_total'', Raw ''icu_beds_capacity_count'',
     Raw ''hospital_beds_in_use_any'', Raw ''hospital_beds_capacity_count'',
     Raw ''icu_beds_in_use_any'', Raw ''icu_beds_in_use_covid_total'', Raw ''active_total'']"

definition raw_dup :: "column frame" where
  "raw_dup = \<lparr>columns = raw_cols,
     rows = [row_of [(Raw ''location'', Num 1001), (Raw ''dt'', Day 737615), (Raw ''cases_total'', Num 10)],
             row_of [(Raw ''location'', Num 1001), (Raw ''dt'', Day 737615), (Raw ''cases_total'', Num 11)]]\<rparr>"

definition raw_ok :: "column frame" where
  "raw_ok = \<lparr>columns = raw_cols,
     rows = [row_of [(Raw ''location'', Num 1001), (Raw ''dt'', Day 737615), (Raw ''cases_total'', Num 10),
                     (Raw ''icu_beds_capacity_count'', Num 4)],
             row_of [(Raw ''location'', Num 1001), (Raw ''dt'', Day 737614), (Raw ''cases_total'', Num 9)],
             row_of [(Raw ''location'', Num 12), (Raw ''dt'', Day 737615), (Raw ''cases_total'', Num 99),
                     (Raw ''icu_beds_capacity_count'', Num 50)]]\<rparr>"

definition tx2 :: "CommonFields frame" where
  "tx2 = \<lparr>columns = [FIPS, DATE, CASES, STATE],
     rows = [row_of [(FIPS, Str ''48001''), (DATE, Day 737613), (CASES, Num 10), (STATE, Str ''TX'')],
             row_of [(FIPS, Str ''48001''), (DATE, Day 737614), (CASES, Num 20), (STATE, Str ''TX'')],
             row_of [(FIPS, Str ''48001''), (DATE, Day 737615), (CASES, Num 30), (STATE, Str ''TX'')],
             row_of [(FIPS, Str ''48003''), (DATE, Day 737613), (CASES, Num 1), (STATE, Str ''TX'')],
             row_of [(FIPS, Str ''48003''), (DATE, Day 737614), (CASES, Num 2), (STATE, Str ''TX'')],
             row_of [(FIPS, Str ''48003''), (DATE, Day 737615), (CASES, Num 3), (STATE, Str ''TX'')]]\<rparr>"

definition df6 :: "CommonFields frame" where
  "df6 = \<lparr>columns = [FIPS, DATE],
          rows = [row_of [(FIPS, Str ''123456''), (DATE, Day 737615)],
                  row_of [(FIPS, Str ''06037''), (DATE, Day 737615)],
                  row_of [(FIPS, Str ''06''), (DATE, Day 737615)]]\<rparr>"

definition df_geo :: "CommonFields frame" where
  "df_geo = \<lparr>columns = [FIPS, DATE, CASES],
     rows = [row_of [(FIPS, Str ''01001''), (DATE, Day 737615), (CASES, Num 10)],
             row_of [(FIPS, Str ''12''), (DATE, Day 737615), (CASES, Num 99)],
             row_of [(FIPS, Str ''99999''), (DATE, Day 737615), (CASES, Num 5)],
             row_of [(FIPS, Str ''99''), (DATE, Day 737615), (CASES, Num 7)]]\<rparr>"

definition df_state_99 :: "CommonFields frame" where
  "df_state_99 = \<lparr>columns = [FIPS, DATE, CASES],
     rows = [row_of [(FIPS, Str ''99''), (DATE, Day 737615), (CASES, Num 7)]]\<rparr>"

definition raw_uf :: "column frame" where
  "raw_uf = \<lparr>columns = [Raw ''fips'', Raw ''dt'', Raw ''cases_total'', Raw ''deaths_total''],
     rows = [row_of [(Raw ''fips'', Num 1001), (Raw ''dt'', Day 737615), (Raw ''cases_total'', Num 10)],
             row_of [(Raw ''fips'', Num 12), (Raw ''dt'', Day 737615), (Raw ''cases_total'', Num 99)],
             row_of [(Raw ''fips'', Num 99999), (Raw ''dt'', Day 737615), (Raw ''cases_total'', Num 5)],
             row_of [(Raw ''fips'', Num 99), (Raw ''dt'', Day 737615), (Raw ''cases_total'', Num 7)]]\<rparr>"

definition raw_nomatch :: "column frame" where
  "raw_nomatch = \<lparr>columns = raw_cols,
     rows = [row_of [(Raw ''location'', Num 1001), (Raw ''dt'', Day 737615), (Raw ''cases_total'', Num 10)],
             row_of [(Raw ''location'', Num 12), (Raw ''dt'', Day 737615), (Raw ''cases_total'', Num 99)],
             row_of [(Raw ''location'', Num 99999), (Raw ''dt'', Day 737615), (Raw ''cases_total'', Num 5)],
             row_of [(Raw ''location'', Num 99), (Raw ''dt'', Day 737615), (Raw ''cases_total'', Num 7)]]\<rparr>"

section \<open>The quality filters in the spec's words\<close>

text \<open>
  Null-key rejection drops any row with a null FIPS, DATE or STATE; ancient-data rejection
  drops the rows dated before 2019-12-01. The source does both in \<^verbatim>\<open>_drop_bad_rows\<close>.
\<close>

definition null_key_rejection :: "CommonFields frame \<Rightarrow> CommonFields frame" where
  "null_key_rejection df = loc (\<lambda>r. r FIPS \<noteq> Null \<and> r DATE \<noteq> Null \<and> r STATE \<noteq> Null) df"

definition ancient_data_rejection :: "CommonFields frame \<Rightarrow> CommonFields frame" where
  "ancient_data_rejection df =
     loc (\<lambda>r. case r DATE of Day d \<Rightarrow> date_2019_12_01 \<le> d | _ \<Rightarrow> True) df"

text \<open>
  Further example inputs.
\<close>

definition stab_no_fl :: "string \<rightharpoonup> string" where
  "stab_no_fl = [''48'' \<mapsto> ''TX'']"

definition raw_fl :: "column frame" where
  "raw_fl = \<lparr>columns = raw_cols,
     rows = [row_of [(Raw ''location'', Num 1001), (Raw ''dt'', Day 737615),
                     (Raw ''icu_beds_in_use_covid_total'', Num 3)],
             row_of [(Raw ''location'', Num 12), (Raw ''dt'', Day 737560),
                     (Raw ''icu_beds_in_use_covid_total'', Num 9)]]\<rparr>"

definition raw_stale :: "column frame" where
  "raw_stale = \<lparr>columns = raw_cols,
     rows = [row_of [(Raw ''location'', Num 1001), (Raw ''dt'', Day 737612)]]\<rparr>"

definition raw_ancient :: "column frame" where
  "raw_ancient = \<lparr>columns = raw_cols,
     rows = [row_of [(Raw ''location'', Num 1001), (Raw ''dt'', Day 737615), (Raw ''cases_total'', Num 10)],
             row_of [(Raw ''location'', Num 1001), (Raw ''dt'', Day 719163), (Raw ''cases_total'', Num 3)]]\<rparr>"

section \<open>Properties\<close>

lemma series_max_eq_Max:
  "[d. Day d \<leftarrow> cs] \<noteq> [] \<Longrightarrow> series_max cs = Some (Max (set [d. Day d \<leftarrow> cs]))"
  by (cases "[d. Day d \<leftarrow> cs]") (simp_all add: series_max_def Max.set_eq_fold [symmetric])

text \<open>
  C2. On a feed that holds at least one date, the staleness check raises StaleDataError
  when the maximum observation date is strictly older than today minus N days and
  returns otherwise; the default N is 3; with the maximum at today minus 4 days it raises
  for N = 3 and returns for N = 4; and the message of the raised error is "Latest dt is "
  followed by the stale date found.
\<close>

theorem fail_if_no_recent_dates_iff:
  assumes "[d. Day d \<leftarrow> dates] \<noteq> []"
  shows "fail_if_no_recent_dates str_dt today dates n =
           (if Max (set [d. Day d \<leftarrow> dates]) < today - n
            then Inl (StaleDataError (''Latest dt is '' @ str_dt (Max (set [d. Day d \<leftarrow> dates]))))
            else Inr ())
       \<and> stale_days_allowed_default = 3
       \<and> (Max (set [d. Day d \<leftarrow> dates]) = today - 4 \<longrightarrow>
            fail_if_no_recent_dates str_dt today dates stale_days_allowed_default
              = Inl (StaleDataError (''Latest dt is '' @ str_dt (today - 4)))
          \<and> fail_if_no_recent_dates str_dt today dates 4 = Inr ())"
  using series_max_eq_Max [OF assms]
  by (simp add: fail_if_no_recent_dates_def stale_days_allowed_default_def)

theorem fail_if_no_recent_dates_witness:
  "[d. Day d \<leftarrow> [Day 737610, Null, Day 737612]] \<noteq> []
   \<and> fail_if_no_recent_dates str_int 737616 [Day 737610, Null, Day 737612] stale_days_allowed_default
       = Inl (StaleDataError ''Latest dt is 737612'')
   \<and> fail_if_no_recent_dates str_int 737616 [Day 737610, Null, Day 737612] 4 = Inr ()"
proof -
  have ne: "[d. Day d \<leftarrow> [Day 737610, Null, Day 737612]] \<noteq> []" by simp
  have mx: "Max (set [d. Day d \<leftarrow> [Day 737610, Null, Day 737612]]) = 737616 - 4" by simp
  have s: "str_int (737616 - 4) = ''737612''" by (simp add: str_int_def str_digits.simps)
  have "fail_if_no_recent_dates str_int 737616 [Day 737610, Null, Day 737612] stale_days_allowed_default
              = Inl (StaleDataError (''Latest dt is '' @ str_int (737616 - 4)))
          \<and> fail_if_no_recent_dates str_int 737616 [Day 737610, Null, Day 737612] 4 = Inr ()"
    using fail_if_no_recent_dates_iff [OF ne, of str_int 737616 3] mx by blast
  with s ne show ?thesis by simp
qed

lemma length_str_digits:
  "length (str_digits v) = (if v < 10 then 1 else Suc (length (str_digits (v div 10))))"
  by (subst str_digits.simps) simp

lemma length_str_digits_pos: "0 < length (str_digits v)"
  by (subst length_str_digits) simp

lemma length_str_digits_one: "v < 10 \<Longrightarrow> length (str_digits v) = 1"
  by (subst length_str_digits) simp

lemma length_str_digits_two: "v < 100 \<Longrightarrow> length (str_digits v) \<le> 2"
proof -
  assume "v < 100"
  then have "v div 10 < 10" by presburger
  then show ?thesis
    by (subst length_str_digits) (simp add: length_str_digits_one)
qed

lemma length_str_digits_three: "v < 1000 \<Longrightarrow> length (str_digits v) \<le> 3"
proof -
  assume "v < 1000"
  then have "v div 10 < 100" by presburger
  from length_str_digits_two [OF this] show ?thesis
    by (subst length_str_digits) simp
qed

lemma length_str_digits_four: "v < 10000 \<Longrightarrow> length (str_digits v) \<le> 4"
proof -
  assume "v < 10000"
  then have "v div 10 < 1000" by presburger
  from length_str_digits_three [OF this] show ?thesis
    by (subst length_str_digits) simp
qed

lemma length_str_digits_five: "v < 100000 \<Longrightarrow> length (str_digits v) \<le> 5"
proof -
  assume "v < 100000"
  then have "v div 10 < 10000" by presburger
  from length_str_digits_four [OF this] show ?thesis
    by (subst length_str_digits) simp
qed

text \<open>
  C5. The derived FIPS is the decimal rendering of the location code with zeros added on
  the left, up to width 2 when the code is below 100 and up to width 5 otherwise: a code
  from 0 to 99 gives exactly 2 characters and a code from 100 to 99999 exactly 5;
  6 gives "06" and 6037 gives "06037".
\<close>

theorem fips_from_int_zero_pads:
  "(\<exists>k. fips_from_int v = replicate k CHR ''0'' @ str_int v)
   \<and> (0 \<le> v \<and> v < 100 \<longrightarrow> length (fips_from_int v) = 2)
   \<and> (100 \<le> v \<and> v < 100000 \<longrightarrow> length (fips_from_int v) = 5)
   \<and> fips_from_int 6 = ''06''
   \<and> fips_from_int 6037 = ''06037''"
proof -
  have a: "\<exists>k. fips_from_int v = replicate k CHR ''0'' @ str_int v"
    by (auto simp: fips_from_int_def zero_pad_def)
  have b: "length (fips_from_int v) = 2" if "0 \<le> v" "v < 100"
  proof -
    from length_str_digits_two [OF that(2)] length_str_digits_pos [of v] that
    show ?thesis by (simp add: fips_from_int_def zero_pad_def str_int_def)
  qed
  have c: "length (fips_from_int v) = 5" if "100 \<le> v" "v < 100000"
  proof -
    from length_str_digits_five [OF that(2)] that
    show ?thesis by (simp add: fips_from_int_def zero_pad_def str_int_def)
  qed
  have d: "fips_from_int 6 = ''06''"
    by (simp add: fips_from_int_def zero_pad_def str_int_def str_digits.simps)
  have e: "fips_from_int 6037 = ''06037''"
    by (simp add: fips_from_int_def zero_pad_def str_int_def str_digits.simps)
  from a b c d e show ?thesis by blast
qed

theorem fips_from_int_zero_pads_witness:
  "length (fips_from_int 48) = 2 \<and> length (fips_from_int 48201) = 5
   \<and> fips_from_int 48 = ''48'' \<and> fips_from_int 48201 = ''48201''"
proof -
  have a: "fips_from_int 48 = ''48''"
    by (simp add: fips_from_int_def zero_pad_def str_int_def str_digits.simps)
  have b: "fips_from_int 48201 = ''48201''"
    by (simp add: fips_from_int_def zero_pad_def str_int_def str_digits.simps)
  from fips_from_int_zero_pads [of 48] fips_from_int_zero_pads [of 48201] a b
  show ?thesis by simp
qed

section \<open>Frames and stages of the county pipeline\<close>

lemma rows_loc [simp]: "rows (loc p df) = filter p (rows df)"
  and columns_loc [simp]: "columns (loc p df) = columns df"
  by (simp_all add: loc_def)

lemma rows_assign [simp]: "rows (assign c v df) = map (\<lambda>r. r(c := v)) (rows df)"
  by (simp add: assign_def)

lemma set_columns_assign [simp]: "set (columns (assign c v df)) = insert c (set (columns df))"
  by (auto simp: assign_def)

lemma set_add_columns [simp]: "set (add_columns cs new) = set cs \<union> set new"
  by (auto simp: add_columns_def)

lemma restrict_in [simp]: "c \<in> set cs \<Longrightarrow> restrict cs r c = r c"
  and restrict_out [simp]: "c \<notin> set cs \<Longrightarrow> restrict cs r c = Null"
  by (simp_all add: restrict_def)

lemma restrict_not_Null: "restrict cs r c \<noteq> Null \<Longrightarrow> restrict cs r c = r c"
  by (simp add: restrict_def split: if_splits)

lemma rows_concat2 [simp]:
  "rows (concat2 a b) = map (restrict (columns a)) (rows a) @ map (restrict (columns b)) (rows b)"
  by (simp add: concat2_def)

lemma set_columns_concat2 [simp]: "set (columns (concat2 a b)) = set (columns a) \<union> set (columns b)"
  by (auto simp: concat2_def)

lemma in_common_fields_order: "c \<in> set common_fields_order"
  by (cases c) (simp_all add: common_fields_order_def)

lemma rows_sort_common [simp]: "rows (sort_common_field_columns df) = rows df"
  by (simp add: sort_common_field_columns_def)

lemma set_columns_sort_common [simp]:
  "set (columns (sort_common_field_columns df)) = set (columns df)"
  by (auto simp: sort_common_field_columns_def in_common_fields_order)

lemma rows_drop_bad_rows:
  "rows (fst (drop_bad_rows df)) = [r \<leftarrow> rows df. \<not> bad_rows r \<and> \<not> ancient_rows r]"
  by (auto simp: drop_bad_rows_def Let_def list_ex_iff filter_id_conv split: prod.splits intro: filter_cong)

lemma columns_drop_bad_rows [simp]: "columns (fst (drop_bad_rows df)) = columns df"
  by (auto simp: drop_bad_rows_def Let_def split: prod.splits)

lemma log_drop_bad_rows:
  "snd (drop_bad_rows df) =
     (if list_ex bad_rows (rows df)
      then [(Warning, ''Dropping rows with null in important columns'')] else [])
     @ (if list_ex ancient_rows [r \<leftarrow> rows df. \<not> bad_rows r]
        then [(Info, ''Dropping rows of ancient data'')] else [])"
  by (auto simp: drop_bad_rows_def Let_def list_ex_iff filter_id_conv split: prod.splits)

lemma rows_null_fl_icu [simp]: "rows (null_fl_icu df) = map null_fl_icu_row (rows df)"
  and set_columns_null_fl_icu [simp]: "set (columns (null_fl_icu df)) = insert CURRENT_ICU (set (columns df))"
  by (auto simp: null_fl_icu_def)

lemma null_fl_icu_row_other: "c \<noteq> CURRENT_ICU \<Longrightarrow> null_fl_icu_row r c = r c"
  by (simp add: null_fl_icu_row_def)

lemma key_of_keys: "key_of COMMON_FIELDS_TIMESERIES_KEYS r = [r FIPS, r DATE]"
  by (simp add: key_of_def COMMON_FIELDS_TIMESERIES_KEYS_def)

lemma set_index_verify_Inr:
  "set_index_verify keys df = Inr out \<Longrightarrow> out = df \<and> distinct (map (key_of keys) (rows df))"
  by (simp add: set_index_verify_def split: if_splits)

lemma set_index_verify_dup:
  "set keys \<subseteq> set (columns df) \<Longrightarrow> \<not> distinct (map (key_of keys) (rows df)) \<Longrightarrow>
   set_index_verify keys df = Inl (ValueError ''Index has duplicate keys'')"
  by (auto simp: set_index_verify_def list_all_iff)

lemma rows_drop_columns:
  "drop_columns labels df = Inr df' \<Longrightarrow>
   rows df' = map (\<lambda>r c. if c \<in> set labels then Null else r c) (rows df)
   \<and> set (columns df') = set (columns df) - set labels \<and> set labels \<subseteq> set (columns df)"
  by (auto simp: drop_columns_def list_all_iff split: if_splits)

lemma canonical_Fields_FIPS: "canonical Fields [FIPS] c = Some FIPS \<longleftrightarrow> c = Common FIPS"
  by (cases c) (auto simp: canonical_def Fields_def split: option.splits if_splits)

lemma canonical_Fields_DATE: "canonical Fields [FIPS] c = Some DATE \<longleftrightarrow> c = Raw ''dt''"
  by (cases c) (auto simp: canonical_def Fields_def split: option.splits if_splits)

lemma canonical_UsaFacts_FIPS: "canonical UsaFactsFields [FIPS] c = Some FIPS \<longleftrightarrow> c = Common FIPS"
  by (cases c) (auto simp: canonical_def UsaFactsFields_def split: option.splits if_splits)

lemma canonical_UsaFacts_DATE: "canonical UsaFactsFields [FIPS] c = Some DATE \<longleftrightarrow> c = Raw ''dt''"
  by (cases c) (auto simp: canonical_def UsaFactsFields_def split: option.splits if_splits)

lemma find_unique:
  "(\<And>x. P x \<longleftrightarrow> x = a) \<Longrightarrow> find P xs = (if a \<in> set xs then Some a else None)"
  by (induction xs) auto

lemma set_columns_rename:
  "set (columns (rename_fields df flds already)) = {f. \<exists>c\<in>set (columns df). canonical flds already c = Some f}"
  by (force simp: rename_fields_def List.map_filter_def)

lemma rename_cell:
  assumes "\<And>c. canonical flds already c = Some f \<longleftrightarrow> c = a" "a \<in> set (columns df)"
  shows "map (\<lambda>r. r f) (rows (rename_fields df flds already)) = map (\<lambda>r. r a) (rows df)"
  using assms by (simp add: rename_fields_def comp_def find_unique)

lemma geo_counties_rows:
  "rows (fst (fst (counties_states_with_geoattributes fips_data state_df df))) =
     map (\<lambda>r. r(AGGREGATE_LEVEL := Str ''county''))
       [r \<leftarrow> map (merge_county fips_data) [r \<leftarrow> map (\<lambda>r. r(COUNTRY := Str ''USA'')) (rows df). \<not> state_mask r].
          \<not> isnull (r STATE)]"
  by (simp add: counties_states_with_geoattributes_def Let_def)

lemma geo_states_rows:
  "rows (snd (fst (counties_states_with_geoattributes fips_data state_df df))) =
     map (\<lambda>r. r(AGGREGATE_LEVEL := Str ''state''))
       (map (merge_state state_df) [r \<leftarrow> map (\<lambda>r. r(COUNTRY := Str ''USA'')) (rows df). state_mask r])"
  by (simp add: counties_states_with_geoattributes_def Let_def)

lemma geo_counties_columns:
  "set (columns (fst (fst (counties_states_with_geoattributes fips_data state_df df)))) =
     set (columns df) \<union> {COUNTRY, STATE, COUNTY, AGGREGATE_LEVEL}"
  by (auto simp: counties_states_with_geoattributes_def Let_def)

lemma geo_states_columns:
  "set (columns (snd (fst (counties_states_with_geoattributes fips_data state_df df)))) =
     set (columns df) \<union> {COUNTRY, STATE, AGGREGATE_LEVEL}"
  by (auto simp: counties_states_with_geoattributes_def Let_def)

lemma merge_county_cells:
  "merge_county fips_data r FIPS = r FIPS"
  "merge_county fips_data r COUNTRY = r COUNTRY"
  "isnull (merge_county fips_data r STATE) \<longleftrightarrow> \<not> (\<exists>f. r FIPS = Str f \<and> f \<in> dom fips_data)"
  by (auto simp: merge_county_def isnull_def split: cell.splits option.splits)

lemma merge_state_cells:
  "merge_state state_df r FIPS = r FIPS"
  "merge_state state_df r COUNTRY = r COUNTRY"
  "isnull (merge_state state_df r STATE) \<longleftrightarrow> \<not> (\<exists>f. r FIPS = Str f \<and> f \<in> dom state_df)"
  by (auto simp: merge_state_def isnull_def split: cell.splits option.splits)

lemma state_mask_iff: "state_mask r \<longleftrightarrow> (\<exists>f. r FIPS = Str f \<and> length f = 2)"
  by (auto simp: state_mask_def split: cell.splits)

lemma geo_log:
  "snd (counties_states_with_geoattributes fips_data state_df df) =
     (if list_ex (\<lambda>r. \<not> state_mask r \<and> \<not> (\<exists>f. r FIPS = Str f \<and> f \<in> dom fips_data)) (rows df)
      then [(Warning, ''Some counties did not match by fips'')] else [])"
  by (auto simp: counties_states_with_geoattributes_def Let_def list_ex_iff filter_empty_conv
        state_mask_iff merge_county_cells)

lemma changes_only_rows:
  assumes "changes_only c f" "r' \<in> set (rows (f df))"
  shows "\<exists>r\<in>set (rows df). \<forall>c'. c' \<noteq> c \<longrightarrow> r' c' = r c'"
proof -
  from assms(1) have "list_all2 (\<lambda>r' r. \<forall>c'. c' \<noteq> c \<longrightarrow> r' c' = r c') (rows (f df)) (rows df)"
    by (simp add: changes_only_def)
  with assms(2) show ?thesis
    by (fastforce simp: list_all2_conv_all_nth in_set_conv_nth)
qed

lemma changes_only_id: "changes_only c (\<lambda>df. df)"
  by (simp add: changes_only_def list_all2_same)

lemma shift_minus_1_rows:
  "r' \<in> set (shift_minus_1 idx rs) \<Longrightarrow>
     (\<exists>r\<in>set rs. \<forall>c. c \<noteq> idx \<longrightarrow> r' c = r c) \<or> (\<forall>c. c \<noteq> idx \<longrightarrow> r' c = Null)"
  by (induction idx rs rule: shift_minus_1.induct) auto

lemma shift_tx_counties_rows:
  assumes "r' \<in> set (rows (shift_tx_counties df))"
  shows "\<exists>r\<in>set (rows df). \<forall>c. c \<noteq> DATE \<longrightarrow> r' c = r c"
proof -
  from assms consider "r' \<in> set (rows df)"
    | "r' \<in> set (shift_minus_1 DATE (filter is_tx_counties (rows df)))"
      "list_ex (\<lambda>c. c \<noteq> DATE \<and> r' c \<noteq> Null) (columns df)"
    by (auto simp: shift_tx_counties_def Let_def dropna_all_def)
  then show ?thesis
  proof cases
    case 1 then show ?thesis by auto
  next
    case 2
    from shift_minus_1_rows [OF 2(1)] 2(2) show ?thesis
      by (auto simp: list_ex_iff)
  qed
qed

lemma set_columns_shift_tx [simp]:
  "set (columns (shift_tx_counties df)) = insert DATE (set (columns df))"
  by (auto simp: shift_tx_counties_def Let_def)

lemma transform_partitions_Inr:
  assumes "transform_partitions sd t fd sdf df0 = Inr ((c, s), lg)"
  shows "Raw ''dt'' \<in> set (columns df0)" "Raw ''location'' \<in> set (columns df0)"
    "fail_if_no_recent_dates sd t (series df0 (Raw ''dt'')) stale_days_allowed_default = Inr ()"
    "c = shift_tx_counties (fst (fst (counties_states_with_geoattributes fd sdf
           (rename_fields (assign_fips ''location'' df0) Fields [FIPS]))))"
    "s = snd (fst (counties_states_with_geoattributes fd sdf
           (rename_fields (assign_fips ''location'' df0) Fields [FIPS])))"
    "lg = snd (counties_states_with_geoattributes fd sdf
           (rename_fields (assign_fips ''location'' df0) Fields [FIPS]))"
  using assms
  by (auto simp: transform_partitions_def Let_def split: if_splits sum.splits prod.splits)

lemma transform_frame_Inr:
  assumes "transform_partitions sd t fd sdf df0 = Inr ((c, s), log1)"
    and "drop_columns state_columns_to_drop s = Inr s'"
  shows "transform_frame sd t fd sdf bf df0 =
           (Inr (null_fl_icu (fst (drop_bad_rows (sort_common_field_columns (concat2 s' (bf c)))))),
            log1 @ snd (drop_bad_rows (sort_common_field_columns (concat2 s' (bf c)))))"
  using assms by (simp add: transform_frame_def Let_def split: prod.splits)

lemma transform_frame_cases:
  assumes "transform_frame sd t fd sdf bf df0 = (Inr fr, lg)"
  obtains c s log1 s' where "transform_partitions sd t fd sdf df0 = Inr ((c, s), log1)"
    "drop_columns state_columns_to_drop s = Inr s'"
    "fr = null_fl_icu (fst (drop_bad_rows (sort_common_field_columns (concat2 s' (bf c)))))"
    "lg = log1 @ snd (drop_bad_rows (sort_common_field_columns (concat2 s' (bf c))))"
  using assms
  by (auto simp: transform_frame_def Let_def split: sum.splits prod.splits)

lemma set_columns_assign_fips [simp]:
  "set (columns (assign_fips src df)) = insert (Common FIPS) (set (columns df))"
  by (auto simp: assign_fips_def)

lemma keys_in_renamed_Fields:
  "Raw ''dt'' \<in> set (columns df0) \<Longrightarrow>
   {FIPS, DATE} \<subseteq> set (columns (rename_fields (assign_fips src df0) Fields [FIPS]))"
  by (auto simp: set_columns_rename canonical_Fields_FIPS canonical_Fields_DATE)

lemma keys_in_renamed_UsaFacts:
  "Raw ''dt'' \<in> set (columns df0) \<Longrightarrow>
   {FIPS, DATE} \<subseteq> set (columns (rename_fields (assign_fips src df0) UsaFactsFields [FIPS]))"
  by (auto simp: set_columns_rename canonical_UsaFacts_FIPS canonical_UsaFacts_DATE)

lemma transform_frame_keys:
  assumes "transform_frame sd t fd sdf bf df0 = (Inr fr, lg)"
  shows "set COMMON_FIELDS_TIMESERIES_KEYS \<subseteq> set (columns fr)"
proof -
  from assms obtain c s log1 s' where p: "transform_partitions sd t fd sdf df0 = Inr ((c, s), log1)"
    and d: "drop_columns state_columns_to_drop s = Inr s'"
    and fr: "fr = null_fl_icu (fst (drop_bad_rows (sort_common_field_columns (concat2 s' (bf c)))))"
    by (rule transform_frame_cases)
  from transform_partitions_Inr(1,5) [OF p] keys_in_renamed_Fields [of df0 "''location''"]
  have "{FIPS, DATE} \<subseteq> set (columns s)"
    by (simp add: geo_states_columns)
  with rows_drop_columns [OF d] have "{FIPS, DATE} \<subseteq> set (columns s')"
    by (auto simp: state_columns_to_drop_def)
  then show ?thesis
    by (auto simp: fr COMMON_FIELDS_TIMESERIES_KEYS_def)
qed

lemma usafacts_frame_cases:
  assumes "usafacts_frame sd t fd sdf df0 = (Inr fr, lg)"
  obtains c s where "Raw ''dt'' \<in> set (columns df0)" "Raw ''fips'' \<in> set (columns df0)"
    "fail_if_no_recent_dates sd t (series df0 (Raw ''dt'')) 7 = Inr ()"
    "c = fst (fst (counties_states_with_geoattributes fd sdf
           (rename_fields (assign_fips ''fips'' df0) UsaFactsFields [FIPS])))"
    "s = snd (fst (counties_states_with_geoattributes fd sdf
           (rename_fields (assign_fips ''fips'' df0) UsaFactsFields [FIPS])))"
    "fr = fst (drop_bad_rows (sort_common_field_columns (concat2 s c)))"
    "lg = snd (counties_states_with_geoattributes fd sdf
           (rename_fields (assign_fips ''fips'' df0) UsaFactsFields [FIPS]))
          @ snd (drop_bad_rows (sort_common_field_columns (concat2 s c)))"
  using assms
  by (auto simp: usafacts_frame_def Let_def split: if_splits sum.splits prod.splits)

lemma usafacts_frame_keys:
  assumes "usafacts_frame sd t fd sdf df0 = (Inr fr, lg)"
  shows "set COMMON_FIELDS_TIMESERIES_KEYS \<subseteq> set (columns fr)"
proof -
  from assms obtain c s where dt: "Raw ''dt'' \<in> set (columns df0)"
    and s: "s = snd (fst (counties_states_with_geoattributes fd sdf
           (rename_fields (assign_fips ''fips'' df0) UsaFactsFields [FIPS])))"
    and fr: "fr = fst (drop_bad_rows (sort_common_field_columns (concat2 s c)))"
    by (rule usafacts_frame_cases)
  from dt keys_in_renamed_UsaFacts [of df0 "''fips''"]
  have "{FIPS, DATE} \<subseteq> set (columns s)"
    by (simp add: s geo_states_columns)
  then show ?thesis
    by (auto simp: fr COMMON_FIELDS_TIMESERIES_KEYS_def)
qed

lemma state_mask_is_state_fips: "state_mask r = is_state_fips (r FIPS)"
  by (simp add: state_mask_def is_state_fips_def)

lemma geo_counties_row:
  assumes "r \<in> set (rows (fst (fst (counties_states_with_geoattributes fd sdf df))))"
  shows "\<not> is_state_fips (r FIPS) \<and> join_match fd sdf (r FIPS) \<and> r AGGREGATE_LEVEL = Str ''county''
         \<and> r COUNTRY = Str ''USA''"
  using assms unfolding geo_counties_rows
  by (auto simp: merge_county_cells state_mask_is_state_fips is_state_fips_def join_match_def dom_def)

lemma geo_states_row:
  assumes "r \<in> set (rows (snd (fst (counties_states_with_geoattributes fd sdf df))))"
  shows "is_state_fips (r FIPS) \<and> (r STATE \<noteq> Null \<longrightarrow> join_match fd sdf (r FIPS))
         \<and> r AGGREGATE_LEVEL = Str ''state'' \<and> r COUNTRY = Str ''USA''"
proof -
  from assms obtain r0 where r: "r = (merge_state sdf r0)(AGGREGATE_LEVEL := Str ''state'')"
    and m: "state_mask r0" and u: "r0 COUNTRY = Str ''USA''"
    unfolding geo_states_rows by auto
  from m u merge_state_cells(3) [of sdf r0] show ?thesis
    by (auto simp: r merge_state_cells state_mask_is_state_fips is_state_fips_def join_match_def
          isnull_def dom_def split: cell.splits)
qed

lemma drop_columns_concat2:
  assumes "drop_columns labels s = Inr s'"
  shows "rows (concat2 s' c) =
           map (\<lambda>r col. if col \<in> set labels then Null else r col)
             (take (length (rows s)) (rows (concat2 s c)))
           @ drop (length (rows s)) (rows (concat2 s c))"
proof -
  from rows_drop_columns [OF assms]
  have r: "rows s' = map (\<lambda>r c. if c \<in> set labels then Null else r c) (rows s)"
    and cs: "set (columns s') = set (columns s) - set labels" by simp_all
  have "restrict (columns s') (\<lambda>c. if c \<in> set labels then Null else r c)
        = (\<lambda>col. if col \<in> set labels then Null else restrict (columns s) r col)" for r
    by (auto simp: restrict_def cs fun_eq_iff)
  then show ?thesis by (simp add: r comp_def)
qed

lemma transform_frame_row:
  assumes fr: "transform_frame sd t fd sdf bf df0 = (Inr fr, lg)" and r: "r \<in> set (rows fr)"
  obtains c s log1 s' r1 where "transform_partitions sd t fd sdf df0 = Inr ((c, s), log1)"
    "drop_columns state_columns_to_drop s = Inr s'"
    "r = null_fl_icu_row r1" "\<not> bad_rows r1" "\<not> ancient_rows r1"
    "(\<exists>r0\<in>set (rows s'). r1 = restrict (columns s') r0)
       \<or> (\<exists>r0\<in>set (rows (bf c)). r1 = restrict (columns (bf c)) r0)"
proof -
  from fr obtain c s log1 s' where p: "transform_partitions sd t fd sdf df0 = Inr ((c, s), log1)"
    and d: "drop_columns state_columns_to_drop s = Inr s'"
    and f: "fr = null_fl_icu (fst (drop_bad_rows (sort_common_field_columns (concat2 s' (bf c)))))"
    by (rule transform_frame_cases)
  from r obtain r1 where a: "r = null_fl_icu_row r1" and b: "\<not> bad_rows r1"
    and n: "\<not> ancient_rows r1"
    and m: "r1 \<in> set (map (restrict (columns s')) (rows s'))
              \<union> set (map (restrict (columns (bf c))) (rows (bf c)))"
    unfolding f by (auto simp: rows_drop_bad_rows)
  from m have e: "(\<exists>r0\<in>set (rows s'). r1 = restrict (columns s') r0)
       \<or> (\<exists>r0\<in>set (rows (bf c)). r1 = restrict (columns (bf c)) r0)"
    by auto
  show thesis by (rule that [OF p d a b n e])
qed

lemma county_partition_row:
  assumes p: "transform_partitions sd t fd sdf df0 = Inr ((c, s), log1)"
    and bf: "changes_only CASES bf" and r: "r0 \<in> set (rows (bf c))"
  shows "\<not> is_state_fips (r0 FIPS) \<and> join_match fd sdf (r0 FIPS)
         \<and> r0 AGGREGATE_LEVEL = Str ''county'' \<and> r0 COUNTRY = Str ''USA''"
proof -
  from changes_only_rows [OF bf r] obtain r1 where r1: "r1 \<in> set (rows c)"
    and e1: "\<forall>c'. c' \<noteq> CASES \<longrightarrow> r0 c' = r1 c'" by blast
  from r1 transform_partitions_Inr(4) [OF p] shift_tx_counties_rows
  obtain r2 where r2: "r2 \<in> set (rows (fst (fst (counties_states_with_geoattributes fd sdf
           (rename_fields (assign_fips ''location'' df0) Fields [FIPS])))))"
    and e2: "\<forall>c'. c' \<noteq> DATE \<longrightarrow> r1 c' = r2 c'" by blast
  from geo_counties_row [OF r2] e1 e2 show ?thesis by simp
qed

lemma state_partition_row:
  assumes p: "transform_partitions sd t fd sdf df0 = Inr ((c, s), log1)"
    and d: "drop_columns state_columns_to_drop s = Inr s'" and r: "r0 \<in> set (rows s')"
  shows "is_state_fips (r0 FIPS) \<and> (r0 STATE \<noteq> Null \<longrightarrow> join_match fd sdf (r0 FIPS))
         \<and> r0 AGGREGATE_LEVEL = Str ''state'' \<and> r0 COUNTRY = Str ''USA''
         \<and> (\<forall>col\<in>set state_columns_to_drop. r0 col = Null)"
proof -
  from r rows_drop_columns [OF d] obtain r1 where r1: "r1 \<in> set (rows s)"
    and e: "r0 = (\<lambda>c. if c \<in> set state_columns_to_drop then Null else r1 c)" by auto
  from r1 transform_partitions_Inr(5) [OF p]
  have "r1 \<in> set (rows (snd (fst (counties_states_with_geoattributes fd sdf
           (rename_fields (assign_fips ''location'' df0) Fields [FIPS])))))" by simp
  from geo_states_row [OF this] show ?thesis
    by (simp add: e state_columns_to_drop_def)
qed

section \<open>The Texas shift\<close>

text \<open>
  C4. The shift on two Texas counties, each with the values 10, 20, 30 and 1, 2, 3 on the
  same three consecutive days and listed county after county: the first county becomes
  20, 30 on its first two days, but the first value of the second county lands on the
  last day of the first county's rows, so county 48003 gets the value 1 on day 3.
\<close>

theorem shift_tx_counties_two_counties:
  "map (\<lambda>r. (r FIPS, r DATE, r CASES)) (rows (shift_tx_counties tx2)) =
    [(Str ''48001'', Day 737613, Num 20), (Str ''48001'', Day 737614, Num 30),
     (Str ''48003'', Day 737615, Num 1),
     (Str ''48003'', Day 737613, Num 2), (Str ''48003'', Day 737614, Num 3)]"
  by code_simp

section \<open>The geo resolver\<close>

text \<open>
  C6, as amended. The state partition holds exactly the rows whose FIPS has 2 characters;
  every other row, whatever the length of its FIPS, goes to the county partition, and the
  county rows returned are those of them with a match in the county table. Every county
  row returned is tagged AGGREGATE_LEVEL "county", every state row "state", and every row
  of both has COUNTRY "USA".
\<close>

theorem geo_partition:
  assumes "counties_states_with_geoattributes fips_data state_df df = ((counties, states), lg)"
  shows "map (\<lambda>r. r FIPS) (rows states) = [c \<leftarrow> map (\<lambda>r. r FIPS) (rows df). is_state_fips c]
     \<and> map (\<lambda>r. r FIPS) (rows counties)
         = [c \<leftarrow> map (\<lambda>r. r FIPS) (rows df). \<not> is_state_fips c \<and> join_match fips_data state_df c]
     \<and> (\<forall>r\<in>set (rows states). r AGGREGATE_LEVEL = Str ''state'' \<and> r COUNTRY = Str ''USA'')
     \<and> (\<forall>r\<in>set (rows counties). r AGGREGATE_LEVEL = Str ''county'' \<and> r COUNTRY = Str ''USA'')"
proof -
  have c: "counties = fst (fst (counties_states_with_geoattributes fips_data state_df df))"
    and s: "states = snd (fst (counties_states_with_geoattributes fips_data state_df df))"
    using assms by simp_all
  have 1: "map (\<lambda>r. r FIPS) (rows states) = [c \<leftarrow> map (\<lambda>r. r FIPS) (rows df). is_state_fips c]"
    unfolding s geo_states_rows
    by (simp add: filter_map comp_def state_mask_is_state_fips merge_state_cells)
  have p: "(\<lambda>x. \<not> is_state_fips (x FIPS) \<and> (\<exists>f. x FIPS = Str f \<and> f \<in> dom fips_data))
         = (\<lambda>x. \<not> is_state_fips (x FIPS) \<and> join_match fips_data state_df (x FIPS))"
    by (auto simp: fun_eq_iff is_state_fips_def join_match_def dom_def split: cell.splits)
  have 2: "map (\<lambda>r. r FIPS) (rows counties)
         = [c \<leftarrow> map (\<lambda>r. r FIPS) (rows df). \<not> is_state_fips c \<and> join_match fips_data state_df c]"
    unfolding c geo_counties_rows
    by (simp add: filter_map comp_def state_mask_is_state_fips merge_county_cells p)
  from geo_states_row [of _ fips_data state_df df] geo_counties_row [of _ fips_data state_df df]
  have 3: "\<forall>r\<in>set (rows states). r AGGREGATE_LEVEL = Str ''state'' \<and> r COUNTRY = Str ''USA''"
    and 4: "\<forall>r\<in>set (rows counties). r AGGREGATE_LEVEL = Str ''county'' \<and> r COUNTRY = Str ''USA''"
    unfolding c s by blast+
  from 1 2 3 4 show ?thesis by blast
qed

theorem geo_partition_witness:
  "(case counties_states_with_geoattributes
        [''06037'' \<mapsto> (''CA'', ''Los Angeles County'')] [''06'' \<mapsto> ''CA''] df6 of
      ((counties, states), lg) \<Rightarrow>
        (map (\<lambda>r. (r FIPS, r AGGREGATE_LEVEL, r COUNTRY)) (rows states),
         map (\<lambda>r. (r FIPS, r AGGREGATE_LEVEL, r COUNTRY)) (rows counties)))
   = ([(Str ''06'', Str ''state'', Str ''USA'')], [(Str ''06037'', Str ''county'', Str ''USA'')])"
proof -
  obtain counties states lg where g: "counties_states_with_geoattributes
        [''06037'' \<mapsto> (''CA'', ''Los Angeles County'')] [''06'' \<mapsto> ''CA''] df6 = ((counties, states), lg)"
    by (metis surj_pair)
  have f: "map (\<lambda>r. r FIPS) (rows df6) = [Str ''123456'', Str ''06037'', Str ''06'']"
    by code_simp
  from geo_partition [OF g]
  have s: "map (\<lambda>r. r FIPS) (rows states) = [c \<leftarrow> map (\<lambda>r. r FIPS) (rows df6). is_state_fips c]"
    and c: "map (\<lambda>r. r FIPS) (rows counties) = [c \<leftarrow> map (\<lambda>r. r FIPS) (rows df6).
              \<not> is_state_fips c \<and> join_match [''06037'' \<mapsto> (''CA'', ''Los Angeles County'')] [''06'' \<mapsto> ''CA''] c]"
    and ts: "\<forall>r\<in>set (rows states). r AGGREGATE_LEVEL = Str ''state'' \<and> r COUNTRY = Str ''USA''"
    and tc: "\<forall>r\<in>set (rows counties). r AGGREGATE_LEVEL = Str ''county'' \<and> r COUNTRY = Str ''USA''"
    by blast+
  from s f have s1: "map (\<lambda>r. r FIPS) (rows states) = [Str ''06'']"
    by (simp add: is_state_fips_def)
  from c f have c1: "map (\<lambda>r. r FIPS) (rows counties) = [Str ''06037'']"
    by (simp add: is_state_fips_def join_match_def)
  from s1 obtain rs where rs: "rows states = [rs]" "rs FIPS = Str ''06''" by auto
  from c1 obtain rc where rc: "rows counties = [rc]" "rc FIPS = Str ''06037''" by auto
  from rs rc ts tc show ?thesis by (simp add: g)
qed

text \<open>
  C6 as stated fails: a row whose FIPS has 6 characters is a county row. With the code in
  the county table it is returned tagged "county"; without it, it is reported among the
  counties that did not match.
\<close>

theorem geo_partition_counterexample:
  "map (\<lambda>r. (r FIPS, r AGGREGATE_LEVEL))
     (rows (fst (fst (counties_states_with_geoattributes
        [''123456'' \<mapsto> (''CA'', ''Nowhere''), ''06037'' \<mapsto> (''CA'', ''Los Angeles County'')]
        [''06'' \<mapsto> ''CA''] df6))))
   = [(Str ''123456'', Str ''county''), (Str ''06037'', Str ''county'')]
   \<and> snd (counties_states_with_geoattributes Map.empty Map.empty
            \<lparr>columns = [FIPS], rows = [row_of [(FIPS, Str ''123456'')]]\<rparr>)
       = [(Warning, ''Some counties did not match by fips'')]"
  by code_simp

section \<open>State bed columns\<close>

text \<open>
  C10. In a run of \<open>transform\<close> that completes, with a backfill removal that changes
  only CASES cells, every row tagged "state" has no value for ICU_BEDS,
  HOSPITAL_BEDS_IN_USE_ANY, STAFFED_BEDS and CURRENT_ICU_TOTAL. The step itself: the
  concatenation after the drop is the concatenation without it, except that the state
  rows (the first rows) are empty at the four labels; the county rows and every other
  cell of a state row are the same.
\<close>

theorem state_bed_columns_dropped:
  assumes "transform sd t fd sdf remove_county_backfilled_cases df0 = (Inr out, lg)"
    and "changes_only CASES remove_county_backfilled_cases"
  shows "(\<forall>r\<in>set (rows out). r AGGREGATE_LEVEL = Str ''state'' \<longrightarrow>
            r ICU_BEDS = Null \<and> r HOSPITAL_BEDS_IN_USE_ANY = Null
            \<and> r STAFFED_BEDS = Null \<and> r CURRENT_ICU_TOTAL = Null)
       \<and> (\<forall>s s' c. drop_columns state_columns_to_drop s = Inr s' \<longrightarrow>
            rows (concat2 s' c) =
              map (\<lambda>r col. if col \<in> set state_columns_to_drop then Null else r col)
                (take (length (rows s)) (rows (concat2 s c)))
              @ drop (length (rows s)) (rows (concat2 s c)))"
proof -
  from assms(1) have fr: "transform_frame sd t fd sdf remove_county_backfilled_cases df0 = (Inr out, lg)"
    by (auto simp: transform_def split: prod.splits sum.splits dest: set_index_verify_Inr)
  have "r ICU_BEDS = Null \<and> r HOSPITAL_BEDS_IN_USE_ANY = Null
            \<and> r STAFFED_BEDS = Null \<and> r CURRENT_ICU_TOTAL = Null"
    if r: "r \<in> set (rows out)" and st: "r AGGREGATE_LEVEL = Str ''state''" for r
  proof -
    from fr r obtain c s log1 s' r1 where p: "transform_partitions sd t fd sdf df0 = Inr ((c, s), log1)"
      and d: "drop_columns state_columns_to_drop s = Inr s'"
      and r1: "r = null_fl_icu_row r1"
      and src: "(\<exists>r0\<in>set (rows s'). r1 = restrict (columns s') r0)
       \<or> (\<exists>r0\<in>set (rows (remove_county_backfilled_cases c)).
             r1 = restrict (columns (remove_county_backfilled_cases c)) r0)"
      by (rule transform_frame_row)
    from st r1 have st1: "r1 AGGREGATE_LEVEL = Str ''state''"
      by (simp add: null_fl_icu_row_other)
    from src show ?thesis
    proof
      assume "\<exists>r0\<in>set (rows s'). r1 = restrict (columns s') r0"
      then obtain r0 where r0: "r0 \<in> set (rows s')" and e: "r1 = restrict (columns s') r0" by blast
      from state_partition_row [OF p d r0]
      have "\<forall>col\<in>set state_columns_to_drop. r1 col = Null"
        by (simp add: e restrict_def)
      then show ?thesis
        by (simp add: r1 null_fl_icu_row_other state_columns_to_drop_def)
    next
      assume "\<exists>r0\<in>set (rows (remove_county_backfilled_cases c)).
             r1 = restrict (columns (remove_county_backfilled_cases c)) r0"
      then obtain r0 where r0: "r0 \<in> set (rows (remove_county_backfilled_cases c))"
        and e: "r1 = restrict (columns (remove_county_backfilled_cases c)) r0" by blast
      from county_partition_row [OF p assms(2) r0] st1 show ?thesis
        by (simp add: e restrict_def split: if_splits)
    qed
  qed
  with drop_columns_concat2 show ?thesis by blast
qed

theorem state_bed_columns_dropped_witness:
  "changes_only CASES (\<lambda>df. df)
   \<and> (case fst (transform str_int 737616 ctab stab (\<lambda>df. df) raw_ok) of
        Inr out \<Rightarrow> map (\<lambda>r. (r FIPS, r AGGREGATE_LEVEL, r ICU_BEDS, r CASES)) (rows out)
      | Inl e \<Rightarrow> [])
     = [(Str ''12'', Str ''state'', Null, Num 99),
        (Str ''01001'', Str ''county'', Num 4, Num 10),
        (Str ''01001'', Str ''county'', Null, Num 9)]"
proof -
  define X where "X = transform str_int 737616 ctab stab (\<lambda>df. df) raw_ok"
  have ev: "(case fst X of
        Inr out \<Rightarrow> map (\<lambda>r. (r FIPS, r AGGREGATE_LEVEL, r CASES)) (rows out) | Inl e \<Rightarrow> [])
     = [(Str ''12'', Str ''state'', Num 99), (Str ''01001'', Str ''county'', Num 10),
        (Str ''01001'', Str ''county'', Num 9)]"
    unfolding X_def by code_simp
  have ev2: "(case fst X of
        Inr out \<Rightarrow> map (\<lambda>r. r ICU_BEDS) (tl (rows out)) | Inl e \<Rightarrow> []) = [Num 4, Null]"
    unfolding X_def by code_simp
  from ev obtain out lg where x: "X = (Inr out, lg)"
    and k: "map (\<lambda>r. (r FIPS, r AGGREGATE_LEVEL, r CASES)) (rows out)
     = [(Str ''12'', Str ''state'', Num 99), (Str ''01001'', Str ''county'', Num 10),
        (Str ''01001'', Str ''county'', Num 9)]"
    by (cases X; cases "fst X") auto
  from k obtain r1 r2 r3 where rs: "rows out = [r1, r2, r3]" by auto
  from state_bed_columns_dropped [OF x [unfolded X_def] changes_only_id]
  have "\<forall>r\<in>set (rows out). r AGGREGATE_LEVEL = Str ''state'' \<longrightarrow> r ICU_BEDS = Null"
    by blast
  with k rs have "r1 ICU_BEDS = Null" by simp
  with k rs ev2 x show ?thesis
    by (simp add: X_def [symmetric] changes_only_id)
qed

section \<open>Rows without a match in the reference tables\<close>

lemma renamed_fips:
  assumes "\<And>c. canonical flds [FIPS] c = Some FIPS \<longleftrightarrow> c = Common FIPS"
  shows "map (\<lambda>r. r FIPS) (rows (rename_fields (assign_fips src df0) flds [FIPS]))
           = map (\<lambda>r. fips_cell (r (Raw src))) (rows df0)"
proof -
  have "Common FIPS \<in> set (columns (assign_fips src df0))" by simp
  from rename_cell [of flds "[FIPS]" FIPS "Common FIPS", OF assms this]
  show ?thesis by (simp add: assign_fips_def comp_def)
qed

lemma renamed_fips_row:
  assumes "\<And>c. canonical flds [FIPS] c = Some FIPS \<longleftrightarrow> c = Common FIPS"
    and "r \<in> set (rows df0)"
  shows "\<exists>r'\<in>set (rows (rename_fields (assign_fips src df0) flds [FIPS])).
           r' FIPS = fips_cell (r (Raw src))"
proof -
  from assms(2) have "fips_cell (r (Raw src)) \<in> set (map (\<lambda>r. fips_cell (r (Raw src))) (rows df0))"
    by auto
  then have "fips_cell (r (Raw src))
      \<in> set (map (\<lambda>r. r FIPS) (rows (rename_fields (assign_fips src df0) flds [FIPS])))"
    by (simp only: renamed_fips [OF assms(1)])
  then show ?thesis by auto
qed

lemma geo_log_county:
  assumes "r \<in> set (rows df)" "\<not> is_state_fips (r FIPS)" "\<not> join_match fd sdf (r FIPS)"
  shows "snd (counties_states_with_geoattributes fd sdf df)
           = [(Warning, ''Some counties did not match by fips'')]"
proof -
  from assms have "list_ex (\<lambda>r. \<not> state_mask r \<and> \<not> (\<exists>f. r FIPS = Str f \<and> f \<in> dom fd)) (rows df)"
    by (auto simp: list_ex_iff state_mask_is_state_fips is_state_fips_def join_match_def dom_def
          split: cell.splits if_splits intro!: bexI [of _ r])
  then show ?thesis by (simp add: geo_log)
qed

lemma geo_state_unmatched:
  assumes "r \<in> set (rows df)" "is_state_fips (r FIPS)" "\<not> join_match fd sdf (r FIPS)"
  shows "\<exists>r'\<in>set (rows (snd (fst (counties_states_with_geoattributes fd sdf df)))). r' STATE = Null"
proof -
  let ?r = "(merge_state sdf (r(COUNTRY := Str ''USA'')))(AGGREGATE_LEVEL := Str ''state'')"
  from assms(1,2) have "?r \<in> set (rows (snd (fst (counties_states_with_geoattributes fd sdf df))))"
    unfolding geo_states_rows by (auto simp: state_mask_is_state_fips)
  moreover from assms(2,3) have "?r STATE = Null"
    by (auto simp: merge_state_def is_state_fips_def join_match_def split: cell.splits option.splits)
  ultimately show ?thesis by blast
qed

lemma drop_bad_rows_logs_null:
  assumes "r \<in> set (rows df)" "r STATE = Null"
  shows "(Warning, ''Dropping rows with null in important columns'') \<in> set (snd (drop_bad_rows df))"
proof -
  from assms have "list_ex bad_rows (rows df)"
    by (auto simp: list_ex_iff bad_rows_def isnull_def)
  then show ?thesis by (simp add: log_drop_bad_rows)
qed

lemma restrict_Null: "r c = Null \<Longrightarrow> restrict cs r c = Null"
  by (simp add: restrict_def)

lemma usafacts_frame_ok:
  assumes "Raw ''dt'' \<in> set (columns df0)" "Raw ''fips'' \<in> set (columns df0)"
    "fail_if_no_recent_dates sd t (series df0 (Raw ''dt'')) 7 = Inr ()"
  shows "\<exists>fr lg. usafacts_frame sd t fd sdf df0 = (Inr fr, lg)"
  using assms by (simp add: usafacts_frame_def Let_def split: prod.splits)

lemma transform_partitions_ok:
  assumes "Raw ''dt'' \<in> set (columns df0)" "Raw ''location'' \<in> set (columns df0)"
    "fail_if_no_recent_dates sd t (series df0 (Raw ''dt'')) stale_days_allowed_default = Inr ()"
  shows "\<exists>c s lg. transform_partitions sd t fd sdf df0 = Inr ((c, s), lg)"
  using assms by (simp add: transform_partitions_def Let_def split: prod.splits)

lemma usafacts_rows_matched:
  assumes fr: "usafacts_frame sd t fd sdf df0 = (Inr fr, lg)" and r: "r \<in> set (rows fr)"
  shows "join_match fd sdf (r FIPS)"
proof -
  from fr obtain c s where
    c: "c = fst (fst (counties_states_with_geoattributes fd sdf
           (rename_fields (assign_fips ''fips'' df0) UsaFactsFields [FIPS])))"
    and s: "s = snd (fst (counties_states_with_geoattributes fd sdf
           (rename_fields (assign_fips ''fips'' df0) UsaFactsFields [FIPS])))"
    and f: "fr = fst (drop_bad_rows (sort_common_field_columns (concat2 s c)))"
    by (rule usafacts_frame_cases)
  from r have nb: "\<not> bad_rows r"
    and m: "(\<exists>r0\<in>set (rows s). r = restrict (columns s) r0)
          \<or> (\<exists>r0\<in>set (rows c). r = restrict (columns c) r0)"
    unfolding f by (auto simp: rows_drop_bad_rows)
  from nb have n: "r FIPS \<noteq> Null" "r STATE \<noteq> Null" by (simp_all add: bad_rows_def isnull_def)
  from m show ?thesis
  proof
    assume "\<exists>r0\<in>set (rows s). r = restrict (columns s) r0"
    then obtain r0 where r0: "r0 \<in> set (rows s)" and e: "r = restrict (columns s) r0" by blast
    from n have "r FIPS = r0 FIPS" "r0 STATE \<noteq> Null"
      by (auto simp: e restrict_def split: if_splits)
    with geo_states_row [OF r0 [unfolded s]] show ?thesis by simp
  next
    assume "\<exists>r0\<in>set (rows c). r = restrict (columns c) r0"
    then obtain r0 where r0: "r0 \<in> set (rows c)" and e: "r = restrict (columns c) r0" by blast
    from n have "r FIPS = r0 FIPS"
      by (auto simp: e restrict_def split: if_splits)
    with geo_counties_row [OF r0 [unfolded c]] show ?thesis by simp
  qed
qed

lemma transform_rows_matched:
  assumes fr: "transform_frame sd t fd sdf bf df0 = (Inr fr, lg)" and bf: "changes_only CASES bf"
    and r: "r \<in> set (rows fr)"
  shows "join_match fd sdf (r FIPS)"
proof -
  from fr r obtain c s log1 s' r1 where p: "transform_partitions sd t fd sdf df0 = Inr ((c, s), log1)"
    and d: "drop_columns state_columns_to_drop s = Inr s'"
    and r1: "r = null_fl_icu_row r1" and nb: "\<not> bad_rows r1"
    and m: "(\<exists>r0\<in>set (rows s'). r1 = restrict (columns s') r0)
       \<or> (\<exists>r0\<in>set (rows (bf c)). r1 = restrict (columns (bf c)) r0)"
    by (rule transform_frame_row)
  from nb have n: "r1 FIPS \<noteq> Null" "r1 STATE \<noteq> Null" by (simp_all add: bad_rows_def isnull_def)
  have e: "r FIPS = r1 FIPS" by (simp add: r1 null_fl_icu_row_other)
  from m show ?thesis
  proof
    assume "\<exists>r0\<in>set (rows s'). r1 = restrict (columns s') r0"
    then obtain r0 where r0: "r0 \<in> set (rows s')" and e1: "r1 = restrict (columns s') r0" by blast
    from n have "r1 FIPS = r0 FIPS" "r0 STATE \<noteq> Null"
      by (auto simp: e1 restrict_def split: if_splits)
    with state_partition_row [OF p d r0] e show ?thesis by simp
  next
    assume "\<exists>r0\<in>set (rows (bf c)). r1 = restrict (columns (bf c)) r0"
    then obtain r0 where r0: "r0 \<in> set (rows (bf c))" and e1: "r1 = restrict (columns (bf c)) r0"
      by blast
    from n have "r1 FIPS = r0 FIPS"
      by (auto simp: e1 restrict_def split: if_splits)
    with county_partition_row [OF p bf r0] e show ?thesis by simp
  qed
qed

lemma usafacts_logs:
  assumes fr: "usafacts_frame sd t fd sdf df0 = (Inr fr, lg)" and r: "r \<in> set (rows df0)"
    and nm: "\<not> join_match fd sdf (fips_cell (r (Raw ''fips'')))"
  shows "if is_state_fips (fips_cell (r (Raw ''fips'')))
         then (Warning, ''Dropping rows with null in important columns'') \<in> set lg
         else (Warning, ''Some counties did not match by fips'') \<in> set lg"
proof -
  let ?df = "rename_fields (assign_fips ''fips'' df0) UsaFactsFields [FIPS]"
  from fr obtain c s where
    s: "s = snd (fst (counties_states_with_geoattributes fd sdf ?df))"
    and lg: "lg = snd (counties_states_with_geoattributes fd sdf ?df)
          @ snd (drop_bad_rows (sort_common_field_columns (concat2 s c)))"
    by (rule usafacts_frame_cases)
  from renamed_fips_row [OF canonical_UsaFacts_FIPS r]
  obtain r' where r': "r' \<in> set (rows ?df)" and e: "r' FIPS = fips_cell (r (Raw ''fips''))"
    by blast
  show ?thesis
  proof (cases "is_state_fips (fips_cell (r (Raw ''fips'')))")
    case True
    with geo_state_unmatched [OF r', of fd sdf] nm e
    obtain r2 where r2: "r2 \<in> set (rows s)" and n: "r2 STATE = Null" unfolding s by auto
    from r2 have "restrict (columns s) r2 \<in> set (rows (sort_common_field_columns (concat2 s c)))"
      by simp
    from drop_bad_rows_logs_null [OF this restrict_Null [of r2 STATE, OF n]] True show ?thesis
      by (simp add: lg)
  next
    case False
    with geo_log_county [OF r', of fd sdf] nm e show ?thesis by (simp add: lg)
  qed
qed

lemma transform_logs:
  assumes fr: "transform_frame sd t fd sdf bf df0 = (Inr fr, lg)" and r: "r \<in> set (rows df0)"
    and nm: "\<not> join_match fd sdf (fips_cell (r (Raw ''location'')))"
  shows "if is_state_fips (fips_cell (r (Raw ''location'')))
         then (Warning, ''Dropping rows with null in important columns'') \<in> set lg
         else (Warning, ''Some counties did not match by fips'') \<in> set lg"
proof -
  let ?df = "rename_fields (assign_fips ''location'' df0) Fields [FIPS]"
  from fr obtain c s log1 s' where p: "transform_partitions sd t fd sdf df0 = Inr ((c, s), log1)"
    and d: "drop_columns state_columns_to_drop s = Inr s'"
    and lg: "lg = log1 @ snd (drop_bad_rows (sort_common_field_columns (concat2 s' (bf c))))"
    by (rule transform_frame_cases)
  note s = transform_partitions_Inr(5) [OF p] and l1 = transform_partitions_Inr(6) [OF p]
  from renamed_fips_row [OF canonical_Fields_FIPS r]
  obtain r' where r': "r' \<in> set (rows ?df)" and e: "r' FIPS = fips_cell (r (Raw ''location''))"
    by blast
  show ?thesis
  proof (cases "is_state_fips (fips_cell (r (Raw ''location'')))")
    case True
    with geo_state_unmatched [OF r', of fd sdf] nm e
    obtain r2 where r2: "r2 \<in> set (rows s)" and n: "r2 STATE = Null" unfolding s by auto
    let ?r3 = "\<lambda>c. if c \<in> set state_columns_to_drop then Null else r2 c"
    from r2 rows_drop_columns [OF d] have "?r3 \<in> set (rows s')" by auto
    then have "restrict (columns s') ?r3
        \<in> set (rows (sort_common_field_columns (concat2 s' (bf c))))"
      by simp
    moreover from n have "restrict (columns s') ?r3 STATE = Null"
      by (simp add: restrict_def)
    ultimately show ?thesis using drop_bad_rows_logs_null True by (simp add: lg)
  next
    case False
    with geo_log_county [OF r', of fd sdf] nm e show ?thesis by (simp add: lg l1)
  qed
qed

lemma counties_fips_list:
  "map (\<lambda>r. r FIPS)
     (map (\<lambda>r. r(AGGREGATE_LEVEL := Str ''county''))
        [r \<leftarrow> map (merge_county fd) [r \<leftarrow> map (\<lambda>r. r(COUNTRY := Str ''USA'')) rs. \<not> state_mask r].
           \<not> isnull (r STATE)])
   = map (\<lambda>r. r FIPS) [r \<leftarrow> rs. \<not> is_state_fips (r FIPS) \<and> join_match fd sdf (r FIPS)]"
  by (induction rs)
     (auto simp: merge_county_cells state_mask_is_state_fips is_state_fips_def join_match_def
        dom_def split: cell.splits)

lemma geo_counties_fips:
  "map (\<lambda>r. r FIPS) (rows (fst (fst (counties_states_with_geoattributes fd sdf df))))
     = [c \<leftarrow> map (\<lambda>r. r FIPS) (rows df). \<not> is_state_fips c \<and> join_match fd sdf c]"
proof -
  have "map (\<lambda>r. r FIPS) (rows (fst (fst (counties_states_with_geoattributes fd sdf df))))
      = map (\<lambda>r. r FIPS) [r \<leftarrow> rows df. \<not> is_state_fips (r FIPS) \<and> join_match fd sdf (r FIPS)]"
    unfolding geo_counties_rows by (rule counties_fips_list)
  then show ?thesis by (simp add: filter_map comp_def)
qed

lemma geo_states_fips:
  "map (\<lambda>r. r FIPS) (rows (snd (fst (counties_states_with_geoattributes fd sdf df))))
     = [c \<leftarrow> map (\<lambda>r. r FIPS) (rows df). is_state_fips c]"
  unfolding geo_states_rows
  by (simp add: filter_map comp_def merge_state_cells state_mask_is_state_fips)

lemma geo_states_null:
  assumes "r \<in> set (rows (snd (fst (counties_states_with_geoattributes fd sdf df))))"
  shows "r STATE = Null \<longleftrightarrow> \<not> join_match fd sdf (r FIPS)"
proof -
  from assms obtain r0 where r: "r = (merge_state sdf r0)(AGGREGATE_LEVEL := Str ''state'')"
    and m: "state_mask r0"
    unfolding geo_states_rows by auto
  from m merge_state_cells(3) [of sdf r0] show ?thesis
    by (auto simp: r merge_state_cells state_mask_is_state_fips is_state_fips_def join_match_def
          isnull_def dom_def split: cell.splits)
qed

lemma geo_log_iff:
  "snd (counties_states_with_geoattributes fd sdf df) =
     (if \<exists>r\<in>set (rows df). \<not> is_state_fips (r FIPS) \<and> \<not> join_match fd sdf (r FIPS)
      then [(Warning, ''Some counties did not match by fips'')] else [])"
proof -
  have "list_ex (\<lambda>r. \<not> state_mask r \<and> \<not> (\<exists>f. r FIPS = Str f \<and> f \<in> dom fd)) (rows df)
        \<longleftrightarrow> (\<exists>r\<in>set (rows df). \<not> is_state_fips (r FIPS) \<and> \<not> join_match fd sdf (r FIPS))"
    by (auto simp: list_ex_iff state_mask_is_state_fips is_state_fips_def join_match_def dom_def
          split: cell.splits)
  then show ?thesis by (simp add: geo_log)
qed

lemma drop_bad_rows_null_state:
  assumes "r \<in> set (rows df)" "r STATE = Null"
  shows "r' \<in> set (rows (fst (drop_bad_rows df))) \<Longrightarrow> r' STATE \<noteq> Null"
    and "(Warning, ''Dropping rows with null in important columns'') \<in> set (snd (drop_bad_rows df))"
proof -
  show "r' \<in> set (rows (fst (drop_bad_rows df))) \<Longrightarrow> r' STATE \<noteq> Null"
    by (auto simp: rows_drop_bad_rows bad_rows_def isnull_def)
  from assms show "(Warning, ''Dropping rows with null in important columns'')
      \<in> set (snd (drop_bad_rows df))"
    by (rule drop_bad_rows_logs_null)
qed

lemma unmatched_rows_in_the_runs:
  "(usafacts_frame sd t fd sdf df0 = (Inr fr, lg) \<longrightarrow>
      (\<forall>r\<in>set (rows fr). join_match fd sdf (r FIPS))
      \<and> (\<forall>r\<in>set (rows df0). \<not> join_match fd sdf (fips_cell (r (Raw ''fips''))) \<longrightarrow>
            (if is_state_fips (fips_cell (r (Raw ''fips'')))
             then (Warning, ''Dropping rows with null in important columns'') \<in> set lg
             else (Warning, ''Some counties did not match by fips'') \<in> set lg))
      \<and> transform_usafacts sd t fd sdf df0
            = (set_index_verify COMMON_FIELDS_TIMESERIES_KEYS fr, lg))
   \<and> (Raw ''dt'' \<in> set (columns df0) \<and> Raw ''fips'' \<in> set (columns df0)
        \<and> fail_if_no_recent_dates sd t (series df0 (Raw ''dt'')) 7 = Inr () \<longrightarrow>
      (\<exists>fr lg. usafacts_frame sd t fd sdf df0 = (Inr fr, lg)))
   \<and> (transform_frame sd t fd sdf bf df0 = (Inr fr', lg') \<and> changes_only CASES bf \<longrightarrow>
      (\<forall>r\<in>set (rows fr'). join_match fd sdf (r FIPS))
      \<and> (\<forall>r\<in>set (rows df0). \<not> join_match fd sdf (fips_cell (r (Raw ''location''))) \<longrightarrow>
            (if is_state_fips (fips_cell (r (Raw ''location'')))
             then (Warning, ''Dropping rows with null in important columns'') \<in> set lg'
             else (Warning, ''Some counties did not match by fips'') \<in> set lg'))
      \<and> transform sd t fd sdf bf df0
            = (set_index_verify COMMON_FIELDS_TIMESERIES_KEYS fr', lg'))
   \<and> (Raw ''dt'' \<in> set (columns df0) \<and> Raw ''location'' \<in> set (columns df0)
        \<and> fail_if_no_recent_dates sd t (series df0 (Raw ''dt'')) stale_days_allowed_default = Inr ()
      \<longrightarrow> (\<exists>c s l. transform_partitions sd t fd sdf df0 = Inr ((c, s), l)))"
proof -
  have a: "(\<forall>r\<in>set (rows fr). join_match fd sdf (r FIPS))
      \<and> (\<forall>r\<in>set (rows df0). \<not> join_match fd sdf (fips_cell (r (Raw ''fips''))) \<longrightarrow>
            (if is_state_fips (fips_cell (r (Raw ''fips'')))
             then (Warning, ''Dropping rows with null in important columns'') \<in> set lg
             else (Warning, ''Some counties did not match by fips'') \<in> set lg))
      \<and> transform_usafacts sd t fd sdf df0
            = (set_index_verify COMMON_FIELDS_TIMESERIES_KEYS fr, lg)"
    if h: "usafacts_frame sd t fd sdf df0 = (Inr fr, lg)"
    using usafacts_rows_matched [OF h] usafacts_logs [OF h] h
    by (simp add: transform_usafacts_def)
  have b: "(\<forall>r\<in>set (rows fr'). join_match fd sdf (r FIPS))
      \<and> (\<forall>r\<in>set (rows df0). \<not> join_match fd sdf (fips_cell (r (Raw ''location''))) \<longrightarrow>
            (if is_state_fips (fips_cell (r (Raw ''location'')))
             then (Warning, ''Dropping rows with null in important columns'') \<in> set lg'
             else (Warning, ''Some counties did not match by fips'') \<in> set lg'))
      \<and> transform sd t fd sdf bf df0
            = (set_index_verify COMMON_FIELDS_TIMESERIES_KEYS fr', lg')"
    if h: "transform_frame sd t fd sdf bf df0 = (Inr fr', lg')" and c: "changes_only CASES bf"
    using transform_rows_matched [OF h c] transform_logs [OF h] h
    by (simp add: transform_def)
  from a b usafacts_frame_ok [of df0 sd t fd sdf] transform_partitions_ok [of df0 sd t fd sdf]
  show ?thesis by blast
qed

text \<open>
  C7, as amended. The resolver drops the rows of the county partition without a match in
  the county table, and no other: the codes of the county rows it returns are the codes
  of the fetched rows that are no state code and have a match, in their order; and its
  log is the warning "Some counties did not match by fips" when there is such a row, and
  empty otherwise. It drops no row of the state partition and logs nothing about them:
  the codes of the state rows it returns are all the state codes fetched, and a state row
  without a match in the state table leaves it with a null STATE. Such a row is dropped
  later, by \<open>_drop_bad_rows\<close>, which logs "Dropping rows with null in important columns".
  So in both feeds the frame built by the steps before the indexing holds only rows with
  a match, the log has the warning of the step that dropped the others, and the run goes
  on: with a fresh feed that has its date and location columns the partitions are built
  whatever the joins find, and the built frame goes to the indexing. For \<open>transform\<close>
  the backfill removal is assumed to change only CASES cells.
\<close>

theorem unmatched_county_rows_dropped_state_rows_kept:
  "(counties_states_with_geoattributes fd sdf df = ((counties, states), lg0) \<longrightarrow>
      map (\<lambda>r. r FIPS) (rows counties)
        = [c \<leftarrow> map (\<lambda>r. r FIPS) (rows df). \<not> is_state_fips c \<and> join_match fd sdf c]
      \<and> lg0 = (if \<exists>r\<in>set (rows df). \<not> is_state_fips (r FIPS) \<and> \<not> join_match fd sdf (r FIPS)
               then [(Warning, ''Some counties did not match by fips'')] else [])
      \<and> map (\<lambda>r. r FIPS) (rows states) = [c \<leftarrow> map (\<lambda>r. r FIPS) (rows df). is_state_fips c]
      \<and> (\<forall>r\<in>set (rows states). r STATE = Null \<longleftrightarrow> \<not> join_match fd sdf (r FIPS)))
   \<and> (r1 \<in> set (rows df1) \<and> r1 STATE = Null \<longrightarrow>
        (\<forall>r\<in>set (rows (fst (drop_bad_rows df1))). r STATE \<noteq> Null)
        \<and> (Warning, ''Dropping rows with null in important columns'') \<in> set (snd (drop_bad_rows df1)))
   \<and> (usafacts_frame sd t fd sdf df0 = (Inr fr, lg) \<longrightarrow>
      (\<forall>r\<in>set (rows fr). join_match fd sdf (r FIPS))
      \<and> (\<forall>r\<in>set (rows df0). \<not> join_match fd sdf (fips_cell (r (Raw ''fips''))) \<longrightarrow>
            (if is_state_fips (fips_cell (r (Raw ''fips'')))
             then (Warning, ''Dropping rows with null in important columns'') \<in> set lg
             else (Warning, ''Some counties did not match by fips'') \<in> set lg))
      \<and> transform_usafacts sd t fd sdf df0
            = (set_index_verify COMMON_FIELDS_TIMESERIES_KEYS fr, lg))
   \<and> (Raw ''dt'' \<in> set (columns df0) \<and> Raw ''fips'' \<in> set (columns df0)
        \<and> fail_if_no_recent_dates sd t (series df0 (Raw ''dt'')) 7 = Inr () \<longrightarrow>
      (\<exists>fr lg. usafacts_frame sd t fd sdf df0 = (Inr fr, lg)))
   \<and> (transform_frame sd t fd sdf bf df0 = (Inr fr', lg') \<and> changes_only CASES bf \<longrightarrow>
      (\<forall>r\<in>set (rows fr'). join_match fd sdf (r FIPS))
      \<and> (\<forall>r\<in>set (rows df0). \<not> join_match fd sdf (fips_cell (r (Raw ''location''))) \<longrightarrow>
            (if is_state_fips (fips_cell (r (Raw ''location'')))
             then (Warning, ''Dropping rows with null in important columns'') \<in> set lg'
             else (Warning, ''Some counties did not match by fips'') \<in> set lg'))
      \<and> transform sd t fd sdf bf df0
            = (set_index_verify COMMON_FIELDS_TIMESERIES_KEYS fr', lg'))
   \<and> (Raw ''dt'' \<in> set (columns df0) \<and> Raw ''location'' \<in> set (columns df0)
        \<and> fail_if_no_recent_dates sd t (series df0 (Raw ''dt'')) stale_days_allowed_default = Inr ()
      \<longrightarrow> (\<exists>c s l. transform_partitions sd t fd sdf df0 = Inr ((c, s), l)))"
proof -
  have a: "map (\<lambda>r. r FIPS) (rows counties)
        = [c \<leftarrow> map (\<lambda>r. r FIPS) (rows df). \<not> is_state_fips c \<and> join_match fd sdf c]
      \<and> lg0 = (if \<exists>r\<in>set (rows df). \<not> is_state_fips (r FIPS) \<and> \<not> join_match fd sdf (r FIPS)
               then [(Warning, ''Some counties did not match by fips'')] else [])
      \<and> map (\<lambda>r. r FIPS) (rows states) = [c \<leftarrow> map (\<lambda>r. r FIPS) (rows df). is_state_fips c]
      \<and> (\<forall>r\<in>set (rows states). r STATE = Null \<longleftrightarrow> \<not> join_match fd sdf (r FIPS))"
    if g: "counties_states_with_geoattributes fd sdf df = ((counties, states), lg0)"
  proof -
    from g have c: "counties = fst (fst (counties_states_with_geoattributes fd sdf df))"
      and s: "states = snd (fst (counties_states_with_geoattributes fd sdf df))"
      and l: "lg0 = snd (counties_states_with_geoattributes fd sdf df)"
      by simp_all
    show ?thesis
      unfolding c s l
      using geo_counties_fips [of fd sdf df] geo_states_fips [of fd sdf df]
        geo_log_iff [of fd sdf df] geo_states_null [of _ fd sdf df]
      by blast
  qed
  have b: "(\<forall>r\<in>set (rows (fst (drop_bad_rows df1))). r STATE \<noteq> Null)
        \<and> (Warning, ''Dropping rows with null in important columns'') \<in> set (snd (drop_bad_rows df1))"
    if "r1 \<in> set (rows df1)" "r1 STATE = Null"
    using drop_bad_rows_null_state [OF that] by blast
  from a b unmatched_rows_in_the_runs [of sd t fd sdf df0 fr lg bf fr' lg']
  show ?thesis by blast
qed

theorem unmatched_county_rows_dropped_state_rows_kept_witness:
  "(case counties_states_with_geoattributes ctab stab df_geo of
      ((c, s), lg) \<Rightarrow> (map (\<lambda>r. r FIPS) (rows c), map (\<lambda>r. (r FIPS, r STATE)) (rows s), lg))
     = ([Str ''01001''], [(Str ''12'', Str ''FL''), (Str ''99'', Null)],
        [(Warning, ''Some counties did not match by fips'')])
   \<and> (\<exists>fr lg. usafacts_frame str_int 737616 ctab stab raw_uf = (Inr fr, lg)
      \<and> transform_usafacts str_int 737616 ctab stab raw_uf = (Inr fr, lg)
      \<and> map (\<lambda>r. r FIPS) (rows fr) = [Str ''12'', Str ''01001'']
      \<and> (Warning, ''Dropping rows with null in important columns'') \<in> set lg
      \<and> (Warning, ''Some counties did not match by fips'') \<in> set lg)
   \<and> (\<exists>fr lg. transform_frame str_int 737616 ctab stab (\<lambda>df. df) raw_nomatch = (Inr fr, lg)
      \<and> transform str_int 737616 ctab stab (\<lambda>df. df) raw_nomatch = (Inr fr, lg)
      \<and> map (\<lambda>r. r FIPS) (rows fr) = [Str ''12'', Str ''01001'']
      \<and> (Warning, ''Dropping rows with null in important columns'') \<in> set lg
      \<and> (Warning, ''Some counties did not match by fips'') \<in> set lg)"
proof -
  define G where "G = counties_states_with_geoattributes ctab stab df_geo"
  obtain c s l where g: "G = ((c, s), l)" by (metis surj_pair)
  have fs: "map (\<lambda>r. r FIPS) (rows df_geo) = [Str ''01001'', Str ''12'', Str ''99999'', Str ''99'']"
    by (simp add: df_geo_def row_of_def)
  have st: "map (\<lambda>r. (r FIPS, r STATE)) (rows (snd (fst G))) = [(Str ''12'', Str ''FL''), (Str ''99'', Null)]"
    unfolding G_def by code_simp
  have ex: "\<exists>r\<in>set (rows df_geo). \<not> is_state_fips (r FIPS) \<and> \<not> join_match ctab stab (r FIPS)"
    by (rule bexI [of _ "row_of [(FIPS, Str ''99999''), (DATE, Day 737615), (CASES, Num 5)]"])
       (simp_all add: df_geo_def row_of_def is_state_fips_def join_match_def ctab_def)
  from unmatched_county_rows_dropped_state_rows_kept [where fd = ctab and sdf = stab and df = df_geo
      and counties = c and states = s and ?lg0.0 = l and ?r1.0 = "\<lambda>c. Null" and ?df1.0 = df_geo
      and sd = str_int and t = 737616 and ?df0.0 = raw_uf
      and fr = "\<lparr>columns = [], rows = []\<rparr>" and lg = "[]" and bf = "\<lambda>df. df"
      and fr' = "\<lparr>columns = [], rows = []\<rparr>" and lg' = "[]"]
    g [unfolded G_def]
  have gc: "map (\<lambda>r. r FIPS) (rows c)
        = [c \<leftarrow> map (\<lambda>r. r FIPS) (rows df_geo). \<not> is_state_fips c \<and> join_match ctab stab c]"
    and gl: "l = (if \<exists>r\<in>set (rows df_geo). \<not> is_state_fips (r FIPS) \<and> \<not> join_match ctab stab (r FIPS)
               then [(Warning, ''Some counties did not match by fips'')] else [])"
    by blast+
  from gc have gc': "map (\<lambda>r. r FIPS) (rows c) = [Str ''01001'']"
    unfolding fs by (simp add: is_state_fips_def join_match_def ctab_def)
  from gl ex have gl': "l = [(Warning, ''Some counties did not match by fips'')]" by simp
  from g st gc' gl' have R: "(case G of
      ((c, s), lg) \<Rightarrow> (map (\<lambda>r. r FIPS) (rows c), map (\<lambda>r. (r FIPS, r STATE)) (rows s), lg))
     = ([Str ''01001''], [(Str ''12'', Str ''FL''), (Str ''99'', Null)],
        [(Warning, ''Some counties did not match by fips'')])"
    by simp
  define U where "U = usafacts_frame str_int 737616 ctab stab raw_uf"
  have "(case U of (Inr fr, lg) \<Rightarrow> map (\<lambda>r. r FIPS) (rows fr) | _ \<Rightarrow> [])
          = [Str ''12'', Str ''01001'']"
    unfolding U_def by code_simp
  then obtain fr lg where u: "U = (Inr fr, lg)"
    and k: "map (\<lambda>r. r FIPS) (rows fr) = [Str ''12'', Str ''01001'']"
    by (cases U; cases "fst U") auto
  let ?c = "row_of [(Raw ''fips'', Num 99999), (Raw ''dt'', Day 737615), (Raw ''cases_total'', Num 5)]"
  let ?s = "row_of [(Raw ''fips'', Num 99), (Raw ''dt'', Day 737615), (Raw ''cases_total'', Num 7)]"
  have in1: "?c \<in> set (rows raw_uf)" "?s \<in> set (rows raw_uf)" by (simp_all add: raw_uf_def)
  have n1: "\<not> join_match ctab stab (fips_cell (?c (Raw ''fips'')))"
    "\<not> is_state_fips (fips_cell (?c (Raw ''fips'')))"
    "\<not> join_match ctab stab (fips_cell (?s (Raw ''fips'')))"
    "is_state_fips (fips_cell (?s (Raw ''fips'')))"
    by code_simp+
  from unmatched_county_rows_dropped_state_rows_kept [where fd = ctab and sdf = stab and df = df_geo
      and counties = c and states = s and ?lg0.0 = l and ?r1.0 = "\<lambda>c. Null" and ?df1.0 = df_geo
      and sd = str_int and t = 737616 and ?df0.0 = raw_uf and fr = fr and lg = lg
      and bf = "\<lambda>df. df" and fr' = fr and lg' = lg]
    u [unfolded U_def]
  have ua: "\<forall>r\<in>set (rows raw_uf). \<not> join_match ctab stab (fips_cell (r (Raw ''fips''))) \<longrightarrow>
            (if is_state_fips (fips_cell (r (Raw ''fips'')))
             then (Warning, ''Dropping rows with null in important columns'') \<in> set lg
             else (Warning, ''Some counties did not match by fips'') \<in> set lg)"
    and ub: "transform_usafacts str_int 737616 ctab stab raw_uf
            = (set_index_verify COMMON_FIELDS_TIMESERIES_KEYS fr, lg)"
    by blast+
  from ua in1 n1 have ul: "(Warning, ''Dropping rows with null in important columns'') \<in> set lg"
      "(Warning, ''Some counties did not match by fips'') \<in> set lg"
    by metis+
  have "(case fst (transform_usafacts str_int 737616 ctab stab raw_uf) of Inr fr \<Rightarrow> True | _ \<Rightarrow> False)"
    by code_simp
  with ub have uc: "transform_usafacts str_int 737616 ctab stab raw_uf = (Inr fr, lg)"
    by (auto split: sum.splits dest: set_index_verify_Inr)
  define T where "T = transform_frame str_int 737616 ctab stab (\<lambda>df. df) raw_nomatch"
  have "(case T of (Inr fr, lg) \<Rightarrow> map (\<lambda>r. r FIPS) (rows fr) | _ \<Rightarrow> [])
          = [Str ''12'', Str ''01001'']"
    unfolding T_def by code_simp
  then obtain fr' lg' where t: "T = (Inr fr', lg')"
    and k': "map (\<lambda>r. r FIPS) (rows fr') = [Str ''12'', Str ''01001'']"
    by (cases T; cases "fst T") auto
  let ?c' = "row_of [(Raw ''location'', Num 99999), (Raw ''dt'', Day 737615), (Raw ''cases_total'', Num 5)]"
  let ?s' = "row_of [(Raw ''location'', Num 99), (Raw ''dt'', Day 737615), (Raw ''cases_total'', Num 7)]"
  have in2: "?c' \<in> set (rows raw_nomatch)" "?s' \<in> set (rows raw_nomatch)"
    by (simp_all add: raw_nomatch_def)
  have n2: "\<not> join_match ctab stab (fips_cell (?c' (Raw ''location'')))"
    "\<not> is_state_fips (fips_cell (?c' (Raw ''location'')))"
    "\<not> join_match ctab stab (fips_cell (?s' (Raw ''location'')))"
    "is_state_fips (fips_cell (?s' (Raw ''location'')))"
    by code_simp+
  from unmatched_county_rows_dropped_state_rows_kept [where fd = ctab and sdf = stab and df = df_geo
      and counties = c and states = s and ?lg0.0 = l and ?r1.0 = "\<lambda>c. Null" and ?df1.0 = df_geo
      and sd = str_int and t = 737616 and ?df0.0 = raw_nomatch and fr = fr' and lg = lg'
      and bf = "\<lambda>df. df" and fr' = fr' and lg' = lg']
    t [unfolded T_def] changes_only_id [of CASES]
  have ta: "\<forall>r\<in>set (rows raw_nomatch). \<not> join_match ctab stab (fips_cell (r (Raw ''location''))) \<longrightarrow>
            (if is_state_fips (fips_cell (r (Raw ''location'')))
             then (Warning, ''Dropping rows with null in important columns'') \<in> set lg'
             else (Warning, ''Some counties did not match by fips'') \<in> set lg')"
    and tb: "transform str_int 737616 ctab stab (\<lambda>df. df) raw_nomatch
            = (set_index_verify COMMON_FIELDS_TIMESERIES_KEYS fr', lg')"
    by blast+
  from ta in2 n2 have tl: "(Warning, ''Dropping rows with null in important columns'') \<in> set lg'"
      "(Warning, ''Some counties did not match by fips'') \<in> set lg'"
    by metis+
  have "(case fst (transform str_int 737616 ctab stab (\<lambda>df. df) raw_nomatch) of Inr fr \<Rightarrow> True | _ \<Rightarrow> False)"
    by code_simp
  with tb have tc: "transform str_int 737616 ctab stab (\<lambda>df. df) raw_nomatch = (Inr fr', lg')"
    by (auto split: sum.splits dest: set_index_verify_Inr)
  have A: "\<exists>fr lg. usafacts_frame str_int 737616 ctab stab raw_uf = (Inr fr, lg)
      \<and> transform_usafacts str_int 737616 ctab stab raw_uf = (Inr fr, lg)
      \<and> map (\<lambda>r. r FIPS) (rows fr) = [Str ''12'', Str ''01001'']
      \<and> (Warning, ''Dropping rows with null in important columns'') \<in> set lg
      \<and> (Warning, ''Some counties did not match by fips'') \<in> set lg"
    using u [unfolded U_def] k ul uc
    by (intro exI [of _ fr] exI [of _ lg]) simp
  have B: "\<exists>fr lg. transform_frame str_int 737616 ctab stab (\<lambda>df. df) raw_nomatch = (Inr fr, lg)
      \<and> transform str_int 737616 ctab stab (\<lambda>df. df) raw_nomatch = (Inr fr, lg)
      \<and> map (\<lambda>r. r FIPS) (rows fr) = [Str ''12'', Str ''01001'']
      \<and> (Warning, ''Dropping rows with null in important columns'') \<in> set lg
      \<and> (Warning, ''Some counties did not match by fips'') \<in> set lg"
    using t [unfolded T_def] k' tl tc
    by (intro exI [of _ fr'] exI [of _ lg']) simp
  from R [unfolded G_def] A B show ?thesis by blast
qed

text \<open>
  C7 as stated fails for the state partition: a state row without a match in the state
  table is returned by the resolver, its STATE null, and the resolver logs nothing.
\<close>

theorem unmatched_county_rows_dropped_state_rows_kept_counterexample:
  "(case counties_states_with_geoattributes ctab stab df_state_99 of
      ((c, s), lg) \<Rightarrow> (map (\<lambda>r. (r FIPS, r STATE, r CASES)) (rows s), lg))
     = ([(Str ''99'', Null, Num 7)], [])"
  by code_simp

section \<open>Order of the quality filters\<close>

lemma drop_bad_rows_filters:
  "fst (drop_bad_rows df) = ancient_data_rejection (null_key_rejection df)"
proof (rule frame.equality)
  show "columns (fst (drop_bad_rows df)) = columns (ancient_data_rejection (null_key_rejection df))"
    by (simp add: ancient_data_rejection_def null_key_rejection_def)
  have "(\<not> bad_rows r \<and> \<not> ancient_rows r) \<longleftrightarrow>
        (r FIPS \<noteq> Null \<and> r DATE \<noteq> Null \<and> r STATE \<noteq> Null
          \<and> (case r DATE of Day d \<Rightarrow> date_2019_12_01 \<le> d | _ \<Rightarrow> True))" for r
    by (auto simp: bad_rows_def ancient_rows_def isnull_def split: cell.splits)
  then show "rows (fst (drop_bad_rows df)) = rows (ancient_data_rejection (null_key_rejection df))"
    by (simp add: rows_drop_bad_rows ancient_data_rejection_def null_key_rejection_def)
qed simp

lemma transform_stale:
  assumes "Raw ''dt'' \<in> set (columns df0)"
    "fail_if_no_recent_dates sd t (series df0 (Raw ''dt'')) stale_days_allowed_default = Inl e"
  shows "transform sd t fd sdf bf df0 = (Inl e, [])"
  using assms by (simp add: transform_def transform_frame_def transform_partitions_def)

text \<open>
  C3, as amended. Within a run of \<open>transform\<close> the quality filters apply in this
  order: the staleness check first (a stale feed ends the run there, nothing logged);
  then backfill removal, on the county partition; then null-key rejection; then
  ancient-data rejection; the known-bad-value correction last. Every row that reaches the
  correction has a FIPS, a DATE and a STATE, so a row with a null key and a known-bad
  value is dropped by the null-key rejection and never corrected.
\<close>

theorem quality_filter_order:
  "(Raw ''dt'' \<in> set (columns df0)
      \<and> fail_if_no_recent_dates sd t (series df0 (Raw ''dt'')) stale_days_allowed_default = Inl e
    \<longrightarrow> transform sd t fd sdf bf df0 = (Inl e, []))
   \<and> (transform_partitions sd t fd sdf df0 = Inr ((c, s), log1)
        \<and> drop_columns state_columns_to_drop s = Inr s' \<longrightarrow>
      fst (transform_frame sd t fd sdf bf df0)
        = Inr (null_fl_icu (ancient_data_rejection (null_key_rejection
                (sort_common_field_columns (concat2 s' (bf c))))))
      \<and> (\<forall>r\<in>set (rows (ancient_data_rejection (null_key_rejection
                (sort_common_field_columns (concat2 s' (bf c)))))).
            r FIPS \<noteq> Null \<and> r DATE \<noteq> Null \<and> r STATE \<noteq> Null))"
proof -
  have a: "fst (transform_frame sd t fd sdf bf df0)
        = Inr (null_fl_icu (ancient_data_rejection (null_key_rejection
                (sort_common_field_columns (concat2 s' (bf c))))))"
    if "transform_partitions sd t fd sdf df0 = Inr ((c, s), log1)"
      "drop_columns state_columns_to_drop s = Inr s'"
    using transform_frame_Inr [OF that, of bf] by (simp add: drop_bad_rows_filters)
  have b: "\<forall>r\<in>set (rows (ancient_data_rejection (null_key_rejection df))).
            r FIPS \<noteq> Null \<and> r DATE \<noteq> Null \<and> r STATE \<noteq> Null" for df
    by (simp add: ancient_data_rejection_def null_key_rejection_def)
  from a b transform_stale [of df0 sd t e fd sdf bf] show ?thesis by blast
qed

theorem quality_filter_order_witness:
  "transform str_int 737616 ctab stab (\<lambda>df. df) raw_stale
     = (Inl (StaleDataError ''Latest dt is 737612''), [])
   \<and> (\<exists>c s l s'. transform_partitions str_int 737616 ctab stab_no_fl raw_fl = Inr ((c, s), l)
        \<and> drop_columns state_columns_to_drop s = Inr s'
        \<and> map (\<lambda>r. (r FIPS, r DATE, r STATE)) (rows (sort_common_field_columns (concat2 s' c)))
            = [(Str ''12'', Day 737560, Null), (Str ''01001'', Day 737615, Str ''AL'')]
        \<and> map (\<lambda>r. (r FIPS, r DATE, r CURRENT_ICU))
             (rows (null_fl_icu (ancient_data_rejection (null_key_rejection
                (sort_common_field_columns (concat2 s' c))))))
            = [(Str ''01001'', Day 737615, Num 3)])"
proof -
  have dt: "Raw ''dt'' \<in> set (columns raw_stale)" by (simp add: raw_stale_def raw_cols_def)
  have st: "fail_if_no_recent_dates str_int 737616 (series raw_stale (Raw ''dt''))
              stale_days_allowed_default = Inl (StaleDataError ''Latest dt is 737612'')"
    by code_simp
  from quality_filter_order [of raw_stale str_int 737616 "StaleDataError ''Latest dt is 737612''"
      ctab stab "\<lambda>df. df"] dt st
  have 1: "transform str_int 737616 ctab stab (\<lambda>df. df) raw_stale
     = (Inl (StaleDataError ''Latest dt is 737612''), [])" by blast
  define P where "P = transform_partitions str_int 737616 ctab stab_no_fl raw_fl"
  have "(case P of
          Inr ((c, s), l) \<Rightarrow>
            (case drop_columns state_columns_to_drop s of
               Inr s' \<Rightarrow> map (\<lambda>r. (r FIPS, r DATE, r STATE))
                           (rows (sort_common_field_columns (concat2 s' c)))
             | Inl e \<Rightarrow> [])
        | Inl e \<Rightarrow> [])
        = [(Str ''12'', Day 737560, Null), (Str ''01001'', Day 737615, Str ''AL'')]"
    unfolding P_def by code_simp
  then obtain c s l s' where p: "P = Inr ((c, s), l)"
    and d: "drop_columns state_columns_to_drop s = Inr s'"
    and k: "map (\<lambda>r. (r FIPS, r DATE, r STATE)) (rows (sort_common_field_columns (concat2 s' c)))
        = [(Str ''12'', Day 737560, Null), (Str ''01001'', Day 737615, Str ''AL'')]"
    by (auto split: sum.splits prod.splits)
  from quality_filter_order [of raw_fl str_int 737616 _ ctab stab_no_fl "\<lambda>df. df" c s l s']
    p [unfolded P_def] d
  have eq: "fst (transform_frame str_int 737616 ctab stab_no_fl (\<lambda>df. df) raw_fl)
        = Inr (null_fl_icu (ancient_data_rejection (null_key_rejection
                (sort_common_field_columns (concat2 s' c)))))"
    by blast
  have "(case fst (transform_frame str_int 737616 ctab stab_no_fl (\<lambda>df. df) raw_fl) of
          Inr fr \<Rightarrow> map (\<lambda>r. (r FIPS, r DATE, r CURRENT_ICU)) (rows fr) | Inl e \<Rightarrow> [])
        = [(Str ''01001'', Day 737615, Num 3)]"
    by code_simp
  with eq have k2: "map (\<lambda>r. (r FIPS, r DATE, r CURRENT_ICU))
             (rows (null_fl_icu (ancient_data_rejection (null_key_rejection
                (sort_common_field_columns (concat2 s' c))))))
            = [(Str ''01001'', Day 737615, Num 3)]"
    by simp
  have 2: "\<exists>c s l s'. transform_partitions str_int 737616 ctab stab_no_fl raw_fl = Inr ((c, s), l)
        \<and> drop_columns state_columns_to_drop s = Inr s'
        \<and> map (\<lambda>r. (r FIPS, r DATE, r STATE)) (rows (sort_common_field_columns (concat2 s' c)))
            = [(Str ''12'', Day 737560, Null), (Str ''01001'', Day 737615, Str ''AL'')]
        \<and> map (\<lambda>r. (r FIPS, r DATE, r CURRENT_ICU))
             (rows (null_fl_icu (ancient_data_rejection (null_key_rejection
                (sort_common_field_columns (concat2 s' c))))))
            = [(Str ''01001'', Day 737615, Num 3)]"
    using p [unfolded P_def] d k k2
    by (intro exI [of _ c] exI [of _ s] exI [of _ l] exI [of _ s']) simp
  from 1 2 show ?thesis by (rule conjI)
qed

text \<open>
  C3 as stated fails: backfill removal does not come last. On a feed with a row dated
  1970-01-01 the county frame handed to the backfill removal still holds that row;
  ancient-data rejection removes it only afterwards, as the log and the result show.
\<close>

theorem quality_filter_order_counterexample:
  "(case transform_partitions str_int 737616 ctab stab raw_ancient of
      Inr ((c, s), l) \<Rightarrow> map (\<lambda>r. (r FIPS, r DATE, r CASES)) (rows c) | Inl e \<Rightarrow> [])
     = [(Str ''01001'', Day 737615, Num 10), (Str ''01001'', Day 719163, Num 3)]
   \<and> (case transform str_int 737616 ctab stab (\<lambda>df. df) raw_ancient of
      (Inr out, l) \<Rightarrow> (map (\<lambda>r. (r FIPS, r DATE, r CASES)) (rows out), l) | (Inl e, l) \<Rightarrow> ([], l))
     = ([(Str ''01001'', Day 737615, Num 10)], [(Info, ''Dropping rows of ancient data'')])"
  by code_simp

section \<open>Target descriptors\<close>

lemma split_space_nonempty: "split_space s \<noteq> []"
  by (induction s) (auto split: list.splits)

lemma split_space_no_space: "CHR '' '' \<notin> set w \<Longrightarrow> split_space w = [w]"
  by (induction w) auto

lemma split_space_append:
  "CHR '' '' \<notin> set w \<Longrightarrow> split_space (w @ CHR '' '' # rest) = w # split_space rest"
  by (induction w) auto

lemma digit_char_is_digit: "0 \<le> v \<Longrightarrow> v < 10 \<Longrightarrow> is_digit (''0123456789'' ! nat v)"
proof -
  assume "0 \<le> v" "v < 10"
  then have "nat v < length ''0123456789''" by simp
  then have "''0123456789'' ! nat v \<in> set ''0123456789''" by (rule nth_mem)
  then show ?thesis by (simp only: is_digit_def)
qed

lemma digit_val_digit_char: "0 \<le> v \<Longrightarrow> v < 10 \<Longrightarrow> digit_val (''0123456789'' ! nat v) = v"
proof -
  assume "0 \<le> v" "v < 10"
  then have "v \<in> {0, 1, 2, 3, 4, 5, 6, 7, 8, 9}" by (simp add: insert_iff) presburger
  then show ?thesis by (auto simp: digit_val_def)
qed

lemma str_digits_digits: "0 \<le> v \<Longrightarrow> list_all is_digit (str_digits v)"
proof (induction v rule: str_digits.induct)
  case (1 v)
  show ?case
  proof (cases "v < 10")
    case True
    with 1(2) show ?thesis
      by (subst str_digits.simps) (simp add: digit_char_is_digit)
  next
    case False
    with 1 have "list_all is_digit (str_digits (v div 10))" by simp
    moreover have "is_digit (''0123456789'' ! nat (v mod 10))"
      by (rule digit_char_is_digit) simp_all
    ultimately show ?thesis using False
      by (subst str_digits.simps) simp
  qed
qed

lemma str_digits_nonempty: "str_digits v \<noteq> []"
  by (subst str_digits.simps) simp

lemma int_of_digits_snoc: "int_of_digits (ds @ [c]) = 10 * int_of_digits ds + digit_val c"
  by (simp add: int_of_digits_def)

lemma int_of_digits_str_digits: "0 \<le> v \<Longrightarrow> int_of_digits (str_digits v) = v"
proof (induction v rule: str_digits.induct)
  case (1 v)
  show ?case
  proof (cases "v < 10")
    case True
    with 1(2) show ?thesis
      by (subst str_digits.simps) (simp add: int_of_digits_def digit_val_digit_char)
  next
    case False
    with 1 have "int_of_digits (str_digits (v div 10)) = v div 10" by simp
    moreover have "digit_val (''0123456789'' ! nat (v mod 10)) = v mod 10"
      by (rule digit_val_digit_char) simp_all
    ultimately show ?thesis using False
      by (subst str_digits.simps) (simp add: int_of_digits_snoc)
  qed
qed

lemma digit_facts:
  assumes "is_digit c"
  shows "\<not> is_space c" "c \<noteq> CHR ''_''" "c \<noteq> CHR ''-''" "c \<noteq> CHR ''+''" "c \<noteq> CHR '' ''"
  using assms by (auto simp: is_digit_def is_space_def)

lemma strip_digits:
  assumes "list_all is_digit s"
  shows "strip s = s"
proof (cases s rule: rev_cases)
  case Nil then show ?thesis by (simp add: strip_def)
next
  case (snoc ys y)
  with assms have y: "\<not> is_space y" by (simp add: digit_facts)
  from assms have "dropWhile is_space s = s"
    by (cases s) (simp_all add: digit_facts)
  with y snoc show ?thesis by (simp add: strip_def)
qed

lemma valid_digits_digits:
  assumes "list_all is_digit s" "s \<noteq> []"
  shows "valid_digits s" "[c \<leftarrow> s. c \<noteq> CHR ''_''] = s"
proof -
  from assms have h: "is_digit (hd s)" "is_digit (last s)"
    by (auto simp: list_all_iff)
  from assms(1) have a: "list_all (\<lambda>c. is_digit c \<or> c = CHR ''_'') s"
    by (auto simp: list_all_iff)
  from assms(1) have u: "\<forall>c\<in>set s. c \<noteq> CHR ''_''"
    by (auto simp: list_all_iff digit_facts)
  then have "\<not> list_ex (\<lambda>(a, b). a = CHR ''_'' \<and> b = CHR ''_'') (zip s (tl s))"
    by (auto simp: list_ex_iff dest: set_zip_leftD)
  with h a assms(2) show "valid_digits s" by (simp add: valid_digits_def)
  from u show "[c \<leftarrow> s. c \<noteq> CHR ''_''] = s" by (simp add: filter_id_conv)
qed

lemma int_of_str_str_int:
  assumes n: "0 \<le> n" and b: "n < 100000"
  shows "int_of_str rt (str_int n) = Some n"
proof -
  let ?s = "str_digits n"
  have d: "list_all is_digit ?s" by (rule str_digits_digits [OF n])
  have ne: "?s \<noteq> []" by (rule str_digits_nonempty)
  then obtain c r where s: "?s = c # r" by (cases ?s) auto
  with d have c: "c \<noteq> CHR ''-''" "c \<noteq> CHR ''+''" by (simp_all add: digit_facts)
  from length_str_digits_five [OF b] have l: "\<not> too_many_digits rt ?s"
    by (simp add: too_many_digits_def)
  from valid_digits_digits [OF d ne] strip_digits [OF d] int_of_digits_str_digits [OF n] c s n l
  show ?thesis
    by (simp add: int_of_str_def str_int_def Let_def)
qed

lemma str_int_no_space: "0 \<le> n \<Longrightarrow> CHR '' '' \<notin> set (str_int n)"
  using str_digits_digits [of n] digit_facts(5) by (auto simp: str_int_def list_all_iff)

lemma split_descriptor:
  assumes "0 \<le> n" "CHR '' '' \<notin> set agg" "CHR '' '' \<notin> set ty"
  shows "split_space (str_int n @ '' wk '' @ agg @ '' '' @ ty) = [str_int n, ''wk'', agg, ty]"
proof -
  have "split_space (str_int n @ CHR '' '' # (''wk'' @ CHR '' '' # (agg @ CHR '' '' # ty)))
        = [str_int n, ''wk'', agg, ty]"
    using assms
    by (simp only: split_space_append [OF str_int_no_space [OF assms(1)]])
       (simp add: split_space_append [of "''wk''"] split_space_append [of agg]
          split_space_no_space)
  then show ?thesis by simp
qed

lemma timedelta_weeks_fit:
  "- 15250 \<le> w \<Longrightarrow> w \<le> 15250 \<Longrightarrow> timedelta_weeks w = Inr (7 * w)"
  by (simp add: timedelta_weeks_def timedelta_max_days_def)

lemma timedelta_weeks_overflow:
  "w < - 15250 \<or> 15250 < w \<Longrightarrow> timedelta_weeks w = Inl OverflowError"
  by (auto simp: timedelta_weeks_def timedelta_max_days_def)

lemma add_target_columns_row_Some:
  assumes "int_of_str rt (hd (split_space (target x))) = Some w" "weeks_fit (forecast_date x) w"
  shows "add_target_columns_row rt x =
     Inr (hub_row.extend x
            \<lparr>target_date = forecast_date x + 7 * w,
             target_type = last (split_space (target x)),
             target_summation =
               (if 2 \<le> length (split_space (target x))
                then Some (split_space (target x) ! (length (split_space (target x)) - 2))
                else None)\<rparr>)"
  using assms
  by (simp add: add_target_columns_row_def Let_def weeks_fit_def timedelta_weeks_fit
        timestamp_add_def)

lemma add_target_columns_row_None:
  "int_of_str rt (hd (split_space (target x))) = None \<Longrightarrow>
   add_target_columns_row rt x = Inl (ValueError ''invalid literal for int() with base 10'')"
  by (simp add: add_target_columns_row_def Let_def)

lemma add_target_columns_row_overflow:
  "int_of_str rt (hd (split_space (target x))) = Some w \<Longrightarrow> w < - 15250 \<or> 15250 < w \<Longrightarrow>
   add_target_columns_row rt x = Inl OverflowError"
  by (simp add: add_target_columns_row_def Let_def timedelta_weeks_overflow)

lemma add_target_columns_rows_fails:
  "x \<in> set df \<Longrightarrow> add_target_columns_row rt x = Inl e \<Longrightarrow>
   \<exists>e'. add_target_columns_rows rt df = Inl e'"
  by (induction df) (auto split: sum.splits)

lemma add_target_columns_rows_Inl:
  assumes "x \<in> set df" "int_of_str rt (hd (split_space (target x))) = None"
    and "\<forall>y\<in>set df. \<forall>w. int_of_str rt (hd (split_space (target y))) = Some w \<longrightarrow>
           weeks_fit (forecast_date y) w"
  shows "add_target_columns_rows rt df = Inl (ValueError ''invalid literal for int() with base 10'')"
  using assms
proof (induction df)
  case Nil then show ?case by simp
next
  case (Cons a df)
  show ?case
  proof (cases "int_of_str rt (hd (split_space (target a)))")
    case None
    then show ?thesis by (simp add: add_target_columns_row_None)
  next
    case (Some w)
    with Cons.prems have x: "x \<in> set df" and f: "weeks_fit (forecast_date a) w" by auto
    from Cons.IH [OF x Cons.prems(2)] Cons.prems(3)
    have "add_target_columns_rows rt df = Inl (ValueError ''invalid literal for int() with base 10'')"
      by simp
    with add_target_columns_row_Some [OF Some f] show ?thesis by simp
  qed
qed

lemma add_target_columns_rows_Inr:
  "(\<forall>x\<in>set df. \<exists>w. int_of_str rt (hd (split_space (target x))) = Some w
       \<and> weeks_fit (forecast_date x) w) \<Longrightarrow>
   \<exists>ps. add_target_columns_rows rt df = Inr ps \<and> length ps = length df"
proof (induction df)
  case Nil then show ?case by simp
next
  case (Cons a df)
  then obtain w ps where w: "int_of_str rt (hd (split_space (target a))) = Some w"
    "weeks_fit (forecast_date a) w"
    and ps: "add_target_columns_rows rt df = Inr ps" "length ps = length df" by auto
  from add_target_columns_row_Some [OF w] ps show ?case by simp
qed

lemma transform_forecast_fails:
  assumes "x \<in> set df" "add_target_columns_row rt x = Inl e"
  shows "\<exists>e'. transform_forecast rt str_q df = Inl e'"
proof -
  from add_target_columns_rows_fails [OF assms]
  obtain e' where "add_target_columns_rows rt df = Inl e'" by blast
  then show ?thesis
    by (cases "df = []") (simp_all add: transform_forecast_def add_target_columns_def)
qed

text \<open>
  C9, as amended. A target descriptor "N wk inc|cum cases|deaths", N a decimal number of
  at most 15250 whose target date is a date that a Timestamp holds, is parsed into target
  date = forecast date + N weeks, target type = last token and aggregation type =
  second-to-last token. The number of tokens is not checked: whenever the first token is
  an integer literal with such a week count the row is parsed, the type being the last
  token and the aggregation the one before it (null for a single token), and a feed of at
  least one row whose rows are all such is parsed row for row. The run ends in an error
  when the first token of some row is not an integer literal: in ValueError when the week
  counts of the other rows fit; a week count beyond 15250 in either direction raises
  OverflowError; and a feed without rows raises ValueError.
\<close>

theorem parse_target_descriptor:
  "(0 \<le> n \<and> n \<le> 15250 \<and> agg \<in> {''inc'', ''cum''} \<and> ty \<in> {''cases'', ''deaths''}
      \<and> target x = str_int n @ '' wk '' @ agg @ '' '' @ ty
      \<and> timestamp_min_day \<le> forecast_date x \<and> forecast_date x + 7 * n \<le> timestamp_max_day \<longrightarrow>
      add_target_columns_row rt x
        = Inr (hub_row.extend x
                 \<lparr>target_date = forecast_date x + 7 * n, target_type = ty,
                  target_summation = Some agg\<rparr>))
   \<and> (int_of_str rt (hd (split_space (target x))) = Some w \<and> weeks_fit (forecast_date x) w \<longrightarrow>
        add_target_columns_row rt x =
          Inr (hub_row.extend x
            \<lparr>target_date = forecast_date x + 7 * w,
             target_type = last (split_space (target x)),
             target_summation =
               (if 2 \<le> length (split_space (target x))
                then Some (split_space (target x) ! (length (split_space (target x)) - 2))
                else None)\<rparr>))
   \<and> (df \<noteq> [] \<and> (\<forall>x\<in>set df. \<exists>w. int_of_str rt (hd (split_space (target x))) = Some w
                                   \<and> weeks_fit (forecast_date x) w) \<longrightarrow>
        (\<exists>ps. add_target_columns rt df = Inr ps \<and> length ps = length df))
   \<and> (x \<in> set df \<and> int_of_str rt (hd (split_space (target x))) = None \<longrightarrow>
        (\<exists>e. transform_forecast rt str_q df = Inl e))
   \<and> (x \<in> set df \<and> int_of_str rt (hd (split_space (target x))) = None
        \<and> (\<forall>y\<in>set df. \<forall>w. int_of_str rt (hd (split_space (target y))) = Some w \<longrightarrow>
               weeks_fit (forecast_date y) w) \<longrightarrow>
        transform_forecast rt str_q df = Inl (ValueError ''invalid literal for int() with base 10''))
   \<and> (int_of_str rt (hd (split_space (target x))) = Some w \<and> (w < - 15250 \<or> 15250 < w) \<longrightarrow>
        add_target_columns_row rt x = Inl OverflowError
        \<and> (x \<in> set df \<longrightarrow> (\<exists>e. transform_forecast rt str_q df = Inl e)))
   \<and> (\<exists>m. transform_forecast rt str_q [] = Inl (ValueError m))"
proof -
  have a: "add_target_columns_row rt x
        = Inr (hub_row.extend x
                 \<lparr>target_date = forecast_date x + 7 * n, target_type = ty,
                  target_summation = Some agg\<rparr>)"
    if n: "0 \<le> n" "n \<le> 15250" and agg: "agg \<in> {''inc'', ''cum''}"
      and ty: "ty \<in> {''cases'', ''deaths''}"
      and t: "target x = str_int n @ '' wk '' @ agg @ '' '' @ ty"
      and r: "timestamp_min_day \<le> forecast_date x" "forecast_date x + 7 * n \<le> timestamp_max_day"
  proof -
    from agg ty have "CHR '' '' \<notin> set agg" "CHR '' '' \<notin> set ty" by auto
    from split_descriptor [OF n(1) this] t
    have s: "split_space (target x) = [str_int n, ''wk'', agg, ty]" by simp
    from n have "n < 100000" by simp
    from int_of_str_str_int [OF n(1) this, of rt] s
    have i: "int_of_str rt (hd (split_space (target x))) = Some n" by simp
    from n r have f: "weeks_fit (forecast_date x) n" by (simp add: weeks_fit_def)
    from add_target_columns_row_Some [OF i f] show ?thesis by (simp add: s)
  qed
  have b: "\<exists>ps. add_target_columns rt df = Inr ps \<and> length ps = length df"
    if "df \<noteq> []" "\<forall>x\<in>set df. \<exists>w. int_of_str rt (hd (split_space (target x))) = Some w
                                   \<and> weeks_fit (forecast_date x) w"
    using add_target_columns_rows_Inr [OF that(2)] that(1) by (simp add: add_target_columns_def)
  have c: "\<exists>e. transform_forecast rt str_q df = Inl e"
    if "x \<in> set df" "int_of_str rt (hd (split_space (target x))) = None"
    using transform_forecast_fails [OF that(1) add_target_columns_row_None [OF that(2)]] .
  have d: "transform_forecast rt str_q df = Inl (ValueError ''invalid literal for int() with base 10'')"
    if "x \<in> set df" "int_of_str rt (hd (split_space (target x))) = None"
      "\<forall>y\<in>set df. \<forall>w. int_of_str rt (hd (split_space (target y))) = Some w \<longrightarrow>
               weeks_fit (forecast_date y) w"
  proof -
    from that(1) have "df \<noteq> []" by auto
    with add_target_columns_rows_Inl [OF that] show ?thesis
      by (simp add: transform_forecast_def add_target_columns_def)
  qed
  have e: "add_target_columns_row rt x = Inl OverflowError
        \<and> (x \<in> set df \<longrightarrow> (\<exists>e. transform_forecast rt str_q df = Inl e))"
    if "int_of_str rt (hd (split_space (target x))) = Some w" "w < - 15250 \<or> 15250 < w"
    using add_target_columns_row_overflow [OF that]
      transform_forecast_fails [of x df rt OverflowError str_q] by simp
  have f: "\<exists>m. transform_forecast rt str_q [] = Inl (ValueError m)"
    by (simp add: transform_forecast_def add_target_columns_def)
  from a b c d e f add_target_columns_row_Some [of rt x w]
  show ?thesis by blast
qed

theorem parse_target_descriptor_witness:
  "add_target_columns_row rt_example
      \<lparr>model_abbr = ''COVIDhub-ensemble'', hub_unit = ''06'', forecast_date = 737615,
       target = ''2 wk cum deaths'', quantile = Some (1 / 2 :: rat), hub_value = Some (20 :: int)\<rparr>
     = Inr \<lparr>model_abbr = ''COVIDhub-ensemble'', hub_unit = ''06'', forecast_date = 737615,
       target = ''2 wk cum deaths'', quantile = Some (1 / 2), hub_value = Some 20,
       target_date = 737629, target_type = ''deaths'', target_summation = Some ''cum''\<rparr>
   \<and> transform_forecast rt_example str_q_example
       [\<lparr>model_abbr = ''COVIDhub-ensemble'', hub_unit = ''06'', forecast_date = 737615,
         target = ''two wk inc cases'', quantile = Some (1 / 2), hub_value = Some (20 :: int)\<rparr>]
     = Inl (ValueError ''invalid literal for int() with base 10'')
   \<and> add_target_columns_row rt_example
      \<lparr>model_abbr = ''COVIDhub-ensemble'', hub_unit = ''06'', forecast_date = 737615,
       target = ''20000 wk inc case'', quantile = Some (1 / 2 :: rat), hub_value = Some (20 :: int)\<rparr>
     = Inl OverflowError"
proof -
  let ?x = "\<lparr>model_abbr = ''COVIDhub-ensemble'', hub_unit = ''06'', forecast_date = 737615,
       target = ''2 wk cum deaths'', quantile = Some (1 / 2 :: rat), hub_value = Some (20 :: int)\<rparr>"
  let ?y = "\<lparr>model_abbr = ''COVIDhub-ensemble'', hub_unit = ''06'', forecast_date = 737615,
         target = ''two wk inc cases'', quantile = Some (1 / 2 :: rat), hub_value = Some (20 :: int)\<rparr>"
  let ?z = "\<lparr>model_abbr = ''COVIDhub-ensemble'', hub_unit = ''06'', forecast_date = 737615,
       target = ''20000 wk inc case'', quantile = Some (1 / 2 :: rat), hub_value = Some (20 :: int)\<rparr>"
  have s: "str_int 2 = ''2''" by (simp add: str_int_def str_digits.simps)
  have e: "int_of_str rt_example (hd (split_space (target ?y))) = None" by code_simp
  have o: "int_of_str rt_example (hd (split_space (target ?z))) = Some 20000" by code_simp
  have 1: "add_target_columns_row rt_example ?x
        = Inr (hub_row.extend ?x
                 \<lparr>target_date = forecast_date ?x + 7 * 2, target_type = ''deaths'',
                  target_summation = Some ''cum''\<rparr>)"
    by (rule mp [OF conjunct1 [OF parse_target_descriptor [where n = 2 and agg = "''cum''"
            and ty = "''deaths''" and x = ?x and rt = rt_example and str_q = str_q_example
            and df = "[?x]" and w = 0]]])
       (simp add: s timestamp_min_day_def timestamp_max_day_def)
  have y: "\<forall>y\<in>set [?y]. \<forall>w. int_of_str rt_example (hd (split_space (target y))) = Some w \<longrightarrow>
               weeks_fit (forecast_date y) w"
    using e by simp
  from parse_target_descriptor [where x = ?y and rt = rt_example and str_q = str_q_example
      and df = "[?y]" and n = 0 and agg = "[]" and ty = "[]" and w = 0]
  have "?y \<in> set [?y] \<and> int_of_str rt_example (hd (split_space (target ?y))) = None
        \<and> (\<forall>y\<in>set [?y]. \<forall>w. int_of_str rt_example (hd (split_space (target y))) = Some w \<longrightarrow>
               weeks_fit (forecast_date y) w) \<longrightarrow>
        transform_forecast rt_example str_q_example [?y]
          = Inl (ValueError ''invalid literal for int() with base 10'')"
    by blast
  with e y have 2: "transform_forecast rt_example str_q_example [?y]
          = Inl (ValueError ''invalid literal for int() with base 10'')"
    by simp
  from parse_target_descriptor [where x = ?z and rt = rt_example and str_q = str_q_example
      and df = "[?z]" and n = 0 and agg = "[]" and ty = "[]" and w = 20000]
  have "int_of_str rt_example (hd (split_space (target ?z))) = Some 20000
          \<and> ((20000 :: int) < - 15250 \<or> (15250 :: int) < 20000) \<longrightarrow>
        add_target_columns_row rt_example ?z = Inl OverflowError"
    by blast
  with o have 3: "add_target_columns_row rt_example ?z = Inl OverflowError" by simp
  from 1 2 3 show ?thesis by (simp add: hub_row.extend_def)
qed

text \<open>
  C9 as stated fails: a descriptor of three tokens raises nothing, its row is dropped by
  the incidence mask; and a descriptor of five tokens is parsed and pivoted.
\<close>

theorem parse_target_descriptor_counterexample:
  "transform_forecast rt_example str_q_example
     [\<lparr>model_abbr = ''COVIDhub-ensemble'', hub_unit = ''06'', forecast_date = 737615,
       target = ''1 wk inc'', quantile = Some (1 / 2), hub_value = Some (20 :: int)\<rparr>]
     = Inr \<lparr>wide_columns = [], wide_rows = []\<rparr>
   \<and> transform_forecast rt_example str_q_example
     [\<lparr>model_abbr = ''COVIDhub-ensemble'', hub_unit = ''06'', forecast_date = 737615,
       target = ''1 wk ahead inc death'', quantile = Some (1 / 2), hub_value = Some (20 :: int)\<rparr>]
     = Inr \<lparr>wide_columns = [''weekly_new_deaths_0.5''],
            wide_rows = [((''06'', 737622, ''COVIDhub-ensemble'', 737615), [Some 20])]\<rparr>"
  by code_simp

section \<open>Forecast filter and pivot\<close>

lemma masks_iff: "masks r \<longleftrightarrow> \<not> excluded r"
  by (auto simp: masks_def excluded_def)

lemma filter_masks: "filter masks ps = [r \<leftarrow> ps. \<not> excluded r]"
  by (rule filter_cong) (simp_all add: masks_iff)

lemma apply_masks_Inr:
  assumes "apply_masks ps = Inr ks"
  shows "ks = [r \<leftarrow> ps. \<not> excluded r]"
    and "apply_masks [r \<leftarrow> ps. \<not> excluded r] = Inr ks"
proof -
  from assms have n: "\<not> list_ex (\<lambda>r. timestamp_max_day < forecast_date r + 28) ps"
    and k: "ks = filter masks ps"
    by (auto simp: apply_masks_def split: if_splits)
  from k show "ks = [r \<leftarrow> ps. \<not> excluded r]" by (simp add: filter_masks)
  from n have "\<not> list_ex (\<lambda>r. timestamp_max_day < forecast_date r + 28) [r \<leftarrow> ps. \<not> excluded r]"
    by (auto simp: list_ex_iff)
  then show "apply_masks [r \<leftarrow> ps. \<not> excluded r] = Inr ks"
    by (simp add: apply_masks_def k filter_masks masks_iff)
qed

lemma add_target_columns_rows_filter:
  "add_target_columns_rows rt df = Inr ps \<Longrightarrow>
   add_target_columns_rows rt [x \<leftarrow> df. \<not> excluded_raw rt x] = Inr [r \<leftarrow> ps. \<not> excluded r]"
proof (induction df arbitrary: ps)
  case Nil then show ?case by simp
next
  case (Cons a df)
  from Cons.prems obtain y ys where y: "add_target_columns_row rt a = Inr y"
    and ys: "add_target_columns_rows rt df = Inr ys" and ps: "ps = y # ys"
    by (auto split: sum.splits)
  from Cons.IH [OF ys] y show ?case
    by (simp add: ps excluded_raw_def)
qed

lemma add_target_columns_Inr:
  "add_target_columns rt df = Inr ps \<Longrightarrow> df \<noteq> [] \<and> add_target_columns_rows rt df = Inr ps"
  by (auto simp: add_target_columns_def split: if_splits)

lemma pivot_wide_Nil: "pivot_wide str_q [] = Inr \<lparr>wide_columns = [], wide_rows = []\<rparr>"
  by (simp add: pivot_wide_def index_names_def)

lemma find_unique_row:
  assumes "distinct (map g xs)" "y \<in> set xs" "\<And>x. x \<in> set xs \<Longrightarrow> P x \<longleftrightarrow> g x = g y"
  shows "find P xs = Some y"
  using assms
proof (induction xs)
  case Nil then show ?case by simp
next
  case (Cons a xs)
  show ?case
  proof (cases "a = y")
    case True
    with Cons.prems(3) [of a] show ?thesis by simp
  next
    case False
    with Cons.prems have y: "y \<in> set xs" and n: "g a \<noteq> g y" by auto
    from Cons.prems(3) [of a] n have "\<not> P a" by simp
    moreover from Cons.IH [OF _ y] Cons.prems have "find P xs = Some y" by simp
    ultimately show ?thesis by simp
  qed
qed

lemma cell_value_unique:
  assumes d: "distinct (map (\<lambda>r. (pivot_index r, target_type r)) df)"
    and r: "r \<in> set df" and q: "quantile r = Some q"
  shows "cell_value df (wide_index r) (target_type r) q = hub_value r"
proof -
  have "find (\<lambda>x. wide_index x = wide_index r \<and> quantile x = Some q \<and> target_type x = target_type r) df
        = Some r"
    by (rule find_unique_row [OF d r]) (auto simp: pivot_index_def wide_index_def q)
  then show ?thesis by (simp add: cell_value_def)
qed

lemma pivot_wide_Inr:
  assumes "pivot_wide str_q df = Inr out"
  shows "distinct (map (\<lambda>r. (pivot_index r, target_type r)) df)"
    and "wide_columns out =
           concat (map (\<lambda>f. map (\<lambda>q. snd f @ ''_'' @ str_q q)
                              (sort (remdups (List.map_filter quantile df))))
                   [f \<leftarrow> weekly_fields. fst f \<in> set (map target_type df)])"
    and "wide_rows out =
           map (\<lambda>k. (k, map (\<lambda>(f, q). cell_value df k (fst f) q)
                          (concat (map (\<lambda>f. map (\<lambda>q. (f, q)) (sort (remdups (List.map_filter quantile df))))
                              [f \<leftarrow> weekly_fields. fst f \<in> set (map target_type df)]))))
             (remdups (map wide_index df))"
    and "\<forall>r\<in>set df. target_type r \<notin> set index_names"
  using assms
  by (auto simp: pivot_wide_def Let_def map_concat comp_def find_None_iff
        split: if_splits option.splits)

lemma pivot_wide_cell:
  assumes out: "pivot_wide str_q df = Inr out" and r: "r \<in> set df"
    and q: "quantile r = Some q" and f: "f \<in> set weekly_fields" "target_type r = fst f"
  shows "\<exists>cells i. (wide_index r, cells) \<in> set (wide_rows out)
           \<and> length cells = length (wide_columns out) \<and> i < length (wide_columns out)
           \<and> wide_columns out ! i = snd f @ ''_'' @ str_q q \<and> cells ! i = hub_value r"
proof -
  let ?qs = "sort (remdups (List.map_filter quantile df))"
  let ?flds = "[f \<leftarrow> weekly_fields. fst f \<in> set (map target_type df)]"
  let ?cols = "concat (map (\<lambda>f. map (\<lambda>q. (f, q)) ?qs) ?flds)"
  let ?cells = "map (\<lambda>(f, q). cell_value df (wide_index r) (fst f) q) ?cols"
  note p = pivot_wide_Inr [OF out]
  have wc: "wide_columns out = map (\<lambda>(f, q). snd f @ ''_'' @ str_q q) ?cols"
    by (simp add: p(2) map_concat comp_def)
  from r q have qs: "q \<in> set ?qs"
    by (force simp: List.map_filter_def)
  from r f(1) f(2) [symmetric] have fl: "f \<in> set ?flds" by auto
  from qs have "(f, q) \<in> set (map (\<lambda>q. (f, q)) ?qs)" by simp
  moreover from fl have "map (\<lambda>q. (f, q)) ?qs \<in> set (map (\<lambda>f. map (\<lambda>q. (f, q)) ?qs) ?flds)"
    by (rule imageI [of f "set ?flds" "\<lambda>f. map (\<lambda>q. (f, q)) ?qs", folded set_map])
  ultimately have "(f, q) \<in> set ?cols" unfolding set_concat by blast
  then obtain i where i: "i < length ?cols" "?cols ! i = (f, q)"
    unfolding in_set_conv_nth by blast
  from r have k: "(wide_index r, ?cells) \<in> set (wide_rows out)"
    by (auto simp: p(3))
  from i have c1: "wide_columns out ! i = snd f @ ''_'' @ str_q q" by (simp add: wc)
  from i cell_value_unique [OF p(1) r q] f(2) have c2: "?cells ! i = hub_value r" by simp
  from i have l: "length ?cells = length (wide_columns out)" "i < length (wide_columns out)"
    by (simp_all add: wc)
  from k l c1 c2 show ?thesis by blast
qed

text \<open>
  C8. On a feed whose targets all parse and whose masks are computed, the rows kept are
  exactly those that the filtering rules do not exclude, the transform is the pivot of
  these rows and of no other, and removing the excluded rows from the feed beforehand
  changes nothing in the result as long as a row is left (a feed in which every row is
  excluded gives the table without value columns and without rows). The value columns of
  the result are named field, underscore, quantile as rendered by \<open>str_q\<close>, for each
  kept field and each quantile of the kept rows; and every kept row of type "case" or
  "death" has its value in the row of its key, under the column of its field and
  quantile. The example that follows gives exactly weekly_new_cases_0.1,
  weekly_new_cases_0.5 and weekly_new_cases_0.9 with the values 10, 20, 30.
\<close>

theorem forecast_filter_then_pivot:
  assumes "add_target_columns rt df = Inr ps" and "apply_masks ps = Inr ks"
  shows "ks = [r \<leftarrow> ps. \<not> excluded r]
     \<and> transform_forecast rt str_q df = pivot_wide str_q ks
     \<and> ([x \<leftarrow> df. \<not> excluded_raw rt x] \<noteq> [] \<longrightarrow>
          transform_forecast rt str_q [x \<leftarrow> df. \<not> excluded_raw rt x] = transform_forecast rt str_q df)
     \<and> ([x \<leftarrow> df. \<not> excluded_raw rt x] = [] \<longrightarrow>
          transform_forecast rt str_q df = Inr \<lparr>wide_columns = [], wide_rows = []\<rparr>)
     \<and> (\<forall>out. transform_forecast rt str_q df = Inr out \<longrightarrow>
          wide_columns out =
            concat (map (\<lambda>f. map (\<lambda>q. snd f @ ''_'' @ str_q q)
                               (sort (remdups (List.map_filter quantile ks))))
                    [f \<leftarrow> weekly_fields. fst f \<in> set (map target_type ks)])
          \<and> (\<forall>r\<in>set ps. \<forall>f\<in>set weekly_fields. \<not> excluded r \<and> target_type r = fst f \<longrightarrow>
               (\<exists>cells i. (wide_index r, cells) \<in> set (wide_rows out)
                  \<and> length cells = length (wide_columns out) \<and> i < length (wide_columns out)
                  \<and> wide_columns out ! i = snd f @ ''_'' @ str_q (the (quantile r))
                  \<and> cells ! i = hub_value r)))"
proof -
  note k = apply_masks_Inr [OF assms(2)]
  note p = add_target_columns_Inr [OF assms(1)]
  have a: "transform_forecast rt str_q df = pivot_wide str_q ks"
    using assms by (simp add: transform_forecast_def)
  note fl = add_target_columns_rows_filter [OF conjunct2 [OF p]]
  have b: "transform_forecast rt str_q [x \<leftarrow> df. \<not> excluded_raw rt x] = transform_forecast rt str_q df"
    if ne: "[x \<leftarrow> df. \<not> excluded_raw rt x] \<noteq> []"
  proof -
    from ne fl have "add_target_columns rt [x \<leftarrow> df. \<not> excluded_raw rt x]
        = Inr [r \<leftarrow> ps. \<not> excluded r]"
      by (simp add: add_target_columns_def)
    with k(2) have "transform_forecast rt str_q [x \<leftarrow> df. \<not> excluded_raw rt x] = pivot_wide str_q ks"
      by (simp add: transform_forecast_def)
    with a show ?thesis by simp
  qed
  have b': "transform_forecast rt str_q df = Inr \<lparr>wide_columns = [], wide_rows = []\<rparr>"
    if "[x \<leftarrow> df. \<not> excluded_raw rt x] = []"
  proof -
    from that fl have "[r \<leftarrow> ps. \<not> excluded r] = []" by simp
    with k(1) have "ks = []" by simp
    then show ?thesis by (simp add: a pivot_wide_Nil)
  qed
  have c: "wide_columns out =
            concat (map (\<lambda>f. map (\<lambda>q. snd f @ ''_'' @ str_q q)
                               (sort (remdups (List.map_filter quantile ks))))
                    [f \<leftarrow> weekly_fields. fst f \<in> set (map target_type ks)])"
    if "transform_forecast rt str_q df = Inr out" for out
    using that pivot_wide_Inr(2) [of str_q ks out] by (simp add: a)
  have d: "\<exists>cells i. (wide_index r, cells) \<in> set (wide_rows out)
                  \<and> length cells = length (wide_columns out) \<and> i < length (wide_columns out)
                  \<and> wide_columns out ! i = snd f @ ''_'' @ str_q (the (quantile r))
                  \<and> cells ! i = hub_value r"
    if o: "transform_forecast rt str_q df = Inr out" and r: "r \<in> set ps" "\<not> excluded r"
      and f: "f \<in> set weekly_fields" "target_type r = fst f" for out r f
  proof -
    from r(2) obtain q where q: "quantile r = Some q" by (auto simp: excluded_def)
    from o have pw: "pivot_wide str_q ks = Inr out" by (simp add: a)
    from r have "r \<in> set ks" by (simp add: k(1))
    from pivot_wide_cell [OF pw this q f] q show ?thesis by simp
  qed
  from k(1) a b b' c d show ?thesis by blast
qed

theorem forecast_filter_then_pivot_witness:
  "transform_forecast rt_example str_q_example hub_example
     = Inr \<lparr>wide_columns = [''weekly_new_cases_0.1'', ''weekly_new_cases_0.5'', ''weekly_new_cases_0.9''],
            wide_rows = [((''06'', 737622, ''COVIDhub-ensemble'', 737615), [Some 10, Some 20, Some 30])]\<rparr>
   \<and> transform_forecast rt_example str_q_example [x \<leftarrow> hub_example. \<not> excluded_raw rt_example x]
       = transform_forecast rt_example str_q_example hub_example
   \<and> map hub_value [x \<leftarrow> hub_example. \<not> excluded_raw rt_example x] = [Some 20, Some 30, Some 10]"
proof -
  define P where "P = add_target_columns rt_example hub_example"
  have "(case P of Inr ps \<Rightarrow> (case apply_masks ps of Inr ks \<Rightarrow> True | Inl e \<Rightarrow> False) | Inl e \<Rightarrow> False)"
    unfolding P_def by code_simp
  then obtain ps ks where ps: "P = Inr ps" and ks: "apply_masks ps = Inr ks"
    by (auto split: sum.splits)
  have 3: "map hub_value [x \<leftarrow> hub_example. \<not> excluded_raw rt_example x] = [Some 20, Some 30, Some 10]"
    by code_simp
  then have ne: "[x \<leftarrow> hub_example. \<not> excluded_raw rt_example x] \<noteq> []" by auto
  from forecast_filter_then_pivot [OF ps [unfolded P_def] ks, of str_q_example] ne
  have 1: "transform_forecast rt_example str_q_example [x \<leftarrow> hub_example. \<not> excluded_raw rt_example x]
       = transform_forecast rt_example str_q_example hub_example" by blast
  have 2: "transform_forecast rt_example str_q_example hub_example
     = Inr \<lparr>wide_columns = [''weekly_new_cases_0.1'', ''weekly_new_cases_0.5'', ''weekly_new_cases_0.9''],
            wide_rows = [((''06'', 737622, ''COVIDhub-ensemble'', 737615), [Some 10, Some 20, Some 30])]\<rparr>"
    by code_simp
  from 1 2 3 show ?thesis by blast
qed

lemma pivot_wide_distinct:
  "pivot_wide str_q df = Inr out \<Longrightarrow> distinct (map fst (wide_rows out))"
  by (auto simp: pivot_wide_def Let_def comp_def split: if_splits option.splits)

lemma transform_forecast_distinct:
  "transform_forecast rt str_q df = Inr out \<Longrightarrow> distinct (map fst (wide_rows out))"
  by (auto simp: transform_forecast_def split: sum.splits dest: pivot_wide_distinct)

lemma transform_forecast_duplicates:
  "add_target_columns rt df = Inr ps \<Longrightarrow> apply_masks ps = Inr ks \<Longrightarrow>
   \<not> distinct (map (\<lambda>r. (pivot_index r, target_type r)) ks) \<Longrightarrow>
   transform_forecast rt str_q df = Inl (ValueError ''Index contains duplicate entries, cannot reshape'')"
  by (simp add: transform_forecast_def pivot_wide_def)

section \<open>Uniqueness of the timeseries key\<close>

text \<open>
  C1. A run of \<open>transform\<close> or of \<open>transform_usafacts\<close> that completes returns the
  frame its steps built, no row dropped or merged, and the (FIPS, DATE) key tuples of its
  rows are pairwise distinct; when the frame built by all the steps before the indexing
  holds two rows with the same key, the run ends in the error ValueError "Index has
  duplicate keys". For the forecast feed the rows of the wide table have pairwise
  distinct keys (FIPS, DATE, MODEL_ABBR, FORECAST_DATE), the quantile being part of the
  column label; and when two of the rows that the masks keep share model, unit, forecast
  date, target date, quantile and target type, the run ends in the error ValueError
  "Index contains duplicate entries, cannot reshape".
\<close>

theorem transform_key_unique:
  "(transform sd t fd sdf bf df0 = (Inr out, lg) \<longrightarrow>
      distinct (map (key_of COMMON_FIELDS_TIMESERIES_KEYS) (rows out))
      \<and> transform_frame sd t fd sdf bf df0 = (Inr out, lg))
   \<and> (transform_frame sd t fd sdf bf df0 = (Inr fr, lg)
        \<and> \<not> distinct (map (key_of COMMON_FIELDS_TIMESERIES_KEYS) (rows fr)) \<longrightarrow>
      transform sd t fd sdf bf df0 = (Inl (ValueError ''Index has duplicate keys''), lg))
   \<and> (transform_usafacts sd t fd sdf df0 = (Inr out, lg) \<longrightarrow>
      distinct (map (key_of COMMON_FIELDS_TIMESERIES_KEYS) (rows out))
      \<and> usafacts_frame sd t fd sdf df0 = (Inr out, lg))
   \<and> (usafacts_frame sd t fd sdf df0 = (Inr fr, lg)
        \<and> \<not> distinct (map (key_of COMMON_FIELDS_TIMESERIES_KEYS) (rows fr)) \<longrightarrow>
      transform_usafacts sd t fd sdf df0 = (Inl (ValueError ''Index has duplicate keys''), lg))
   \<and> key_of COMMON_FIELDS_TIMESERIES_KEYS r = [r FIPS, r DATE]
   \<and> (transform_forecast rt str_q hdf = Inr wout \<longrightarrow> distinct (map fst (wide_rows wout)))
   \<and> (add_target_columns rt hdf = Inr ps \<and> apply_masks ps = Inr ks
        \<and> \<not> distinct (map (\<lambda>r. (pivot_index r, target_type r)) ks) \<longrightarrow>
      transform_forecast rt str_q hdf
        = Inl (ValueError ''Index contains duplicate entries, cannot reshape''))"
proof -
  have a: "distinct (map (key_of COMMON_FIELDS_TIMESERIES_KEYS) (rows out))
      \<and> transform_frame sd t fd sdf bf df0 = (Inr out, lg)"
    if "transform sd t fd sdf bf df0 = (Inr out, lg)"
    using that
    by (auto simp: transform_def split: prod.splits sum.splits dest: set_index_verify_Inr)
  have b: "transform sd t fd sdf bf df0 = (Inl (ValueError ''Index has duplicate keys''), lg)"
    if "transform_frame sd t fd sdf bf df0 = (Inr fr, lg)"
      "\<not> distinct (map (key_of COMMON_FIELDS_TIMESERIES_KEYS) (rows fr))"
    using that set_index_verify_dup [OF transform_frame_keys [OF that(1)] that(2)]
    by (simp add: transform_def)
  have c: "distinct (map (key_of COMMON_FIELDS_TIMESERIES_KEYS) (rows out))
      \<and> usafacts_frame sd t fd sdf df0 = (Inr out, lg)"
    if "transform_usafacts sd t fd sdf df0 = (Inr out, lg)"
    using that
    by (auto simp: transform_usafacts_def split: prod.splits sum.splits dest: set_index_verify_Inr)
  have d: "transform_usafacts sd t fd sdf df0 = (Inl (ValueError ''Index has duplicate keys''), lg)"
    if "usafacts_frame sd t fd sdf df0 = (Inr fr, lg)"
      "\<not> distinct (map (key_of COMMON_FIELDS_TIMESERIES_KEYS) (rows fr))"
    using that set_index_verify_dup [OF usafacts_frame_keys [OF that(1)] that(2)]
    by (simp add: transform_usafacts_def)
  from a b c d key_of_keys transform_forecast_distinct [of rt str_q hdf wout]
    transform_forecast_duplicates [of rt hdf ps ks str_q]
  show ?thesis by blast
qed

theorem transform_key_unique_witness:
  "fst (transform str_int 737616 ctab stab (\<lambda>df. df) raw_dup)
     = Inl (ValueError ''Index has duplicate keys'')
   \<and> (case fst (transform str_int 737616 ctab stab (\<lambda>df. df) raw_ok) of
        Inr out \<Rightarrow> map (key_of COMMON_FIELDS_TIMESERIES_KEYS) (rows out) | Inl e \<Rightarrow> [])
     = [[Str ''12'', Day 737615], [Str ''01001'', Day 737615], [Str ''01001'', Day 737614]]
   \<and> transform_forecast rt_example str_q_example (hub_example @ hub_example)
     = Inl (ValueError ''Index contains duplicate entries, cannot reshape'')"
proof -
  define X where "X = transform_frame str_int 737616 ctab stab (\<lambda>df. df) raw_dup"
  have "(case X of (Inr fr, lg) \<Rightarrow> map (key_of COMMON_FIELDS_TIMESERIES_KEYS) (rows fr) | _ \<Rightarrow> [])
        = [[Str ''01001'', Day 737615], [Str ''01001'', Day 737615]]"
    unfolding X_def by code_simp
  then obtain fr lg where x: "X = (Inr fr, lg)"
    and k: "map (key_of COMMON_FIELDS_TIMESERIES_KEYS) (rows fr)
              = [[Str ''01001'', Day 737615], [Str ''01001'', Day 737615]]"
    by (cases X; cases "fst X") auto
  from k have nd: "\<not> distinct (map (key_of COMMON_FIELDS_TIMESERIES_KEYS) (rows fr))" by simp
  from transform_key_unique [where sd = str_int and t = 737616 and fd = ctab and sdf = stab
      and bf = "\<lambda>df. df" and ?df0.0 = raw_dup and out = fr and lg = lg and fr = fr
      and r = "\<lambda>c. Null" and rt = rt_example and str_q = str_q_example and hdf = hub_example
      and wout = "\<lparr>wide_columns = [], wide_rows = []\<rparr> :: int wide_frame" and ps = "[]"
      and ks = "[]"]
  have "transform_frame str_int 737616 ctab stab (\<lambda>df. df) raw_dup = (Inr fr, lg)
        \<and> \<not> distinct (map (key_of COMMON_FIELDS_TIMESERIES_KEYS) (rows fr)) \<longrightarrow>
      transform str_int 737616 ctab stab (\<lambda>df. df) raw_dup = (Inl (ValueError ''Index has duplicate keys''), lg)"
    by blast
  with x nd have 1: "fst (transform str_int 737616 ctab stab (\<lambda>df. df) raw_dup)
     = Inl (ValueError ''Index has duplicate keys'')"
    unfolding X_def by simp
  have 2: "(case fst (transform str_int 737616 ctab stab (\<lambda>df. df) raw_ok) of
        Inr out \<Rightarrow> map (key_of COMMON_FIELDS_TIMESERIES_KEYS) (rows out) | Inl e \<Rightarrow> [])
     = [[Str ''12'', Day 737615], [Str ''01001'', Day 737615], [Str ''01001'', Day 737614]]"
    by code_simp
  have 3: "transform_forecast rt_example str_q_example (hub_example @ hub_example)
     = Inl (ValueError ''Index contains duplicate entries, cannot reshape'')"
    by code_simp
  from 1 2 3 show ?thesis by simp
qed

end
